theory Spec2Isabelle
  imports Main "HOL-Library.Sublist" "HOL-Library.Word"
begin

section \<open>Python values\<close>

text \<open>
  The values \<open>json.loads\<close> can produce: \<open>None\<close>, booleans, unbounded integers, floats
  (held as their IEEE-754 binary64 bit pattern), strings, lists and dictionaries. A
  dictionary is an association list; lookup takes the first binding of a key.
\<close>

type_synonym pyfloat = "64 word"

datatype py =
    PNone
  | PBool bool
  | PInt int
  | PFloat pyfloat
  | PStr string
  | PList "py list"
  | PDict "(string \<times> py) list"

text \<open>Truth value of an object, as \<open>or\<close> and \<open>not\<close> test it.\<close>

fun truthy :: "py \<Rightarrow> bool" where
  "truthy PNone = False"
| "truthy (PBool b) = b"
| "truthy (PInt i) = (i \<noteq> 0)"
| "truthy (PFloat f) = (take_bit 63 f \<noteq> 0)"
| "truthy (PStr s) = (s \<noteq> [])"
| "truthy (PList xs) = (xs \<noteq> [])"
| "truthy (PDict kvs) = (kvs \<noteq> [])"

definition py_or :: "py \<Rightarrow> py \<Rightarrow> py" where
  "py_or a b = (if truthy a then a else b)"

fun is_dict :: "py \<Rightarrow> bool" where
  "is_dict (PDict kvs) = True"
| "is_dict v = False"

fun is_list :: "py \<Rightarrow> bool" where
  "is_list (PList xs) = True"
| "is_list v = False"

text \<open>\<open>k in d\<close> and \<open>d.get(k)\<close>; both are only reached behind an \<open>isinstance(d, dict)\<close>.\<close>

fun py_in :: "string \<Rightarrow> py \<Rightarrow> bool" where
  "py_in k (PDict kvs) = (map_of kvs k \<noteq> None)"
| "py_in k v = False"

fun py_get :: "py \<Rightarrow> string \<Rightarrow> py" where
  "py_get (PDict kvs) k = (case map_of kvs k of None \<Rightarrow> PNone | Some v \<Rightarrow> v)"
| "py_get v k = PNone"

text \<open>The elements a \<open>for\<close> loop over a list visits.\<close>

fun elems :: "py \<Rightarrow> py list" where
  "elems (PList xs) = xs"
| "elems v = []"

subsection \<open>Decimal rendering of integers\<close>

definition digit_char :: "nat \<Rightarrow> char" where
  "digit_char d = ''0123456789'' ! d"

fun digits :: "nat \<Rightarrow> string" where
  "digits n = (if n < 10 then [digit_char n] else digits (n div 10) @ [digit_char (n mod 10)])"

declare digits.simps [simp del]

definition str_int :: "int \<Rightarrow> string" where
  "str_int i = (if i < 0 then CHR ''-'' # digits (nat (- i)) else digits (nat i))"

subsection \<open>Library functions taken as given\<close>

text \<open>
  The standard-library functions the program calls and does not define:
  \<^item> \<open>json_loads b\<close> is \<open>json.loads(b.decode("utf-8", errors="replace"))\<close>. It returns
    a value, raises \<open>JSONDecodeError\<close>, or raises an error of another class: a
    \<open>RecursionError\<close> on a deeply nested text, a \<open>ValueError\<close> on an integer literal
    longer than the interpreter's digit limit;
  \<^item> \<open>json_dumps v\<close> is \<open>json.dumps(v).encode("utf-8")\<close>;
  \<^item> \<open>py_repr v\<close> is \<open>str(v)\<close> for a float, a list or a dictionary;
  \<^item> \<open>str_lower s\<close> is \<open>s.lower()\<close>.
\<close>

datatype loads_error = RecursionError | ValueError

datatype loads_result = Parsed py | JSONDecodeError | Raised loads_error

record py_lib =
  json_loads :: "string \<Rightarrow> loads_result"
  json_dumps :: "py \<Rightarrow> string"
  py_repr :: "py \<Rightarrow> string"
  str_lower :: "string \<Rightarrow> string"

fun py_str :: "py_lib \<Rightarrow> py \<Rightarrow> string" where
  "py_str lib PNone = ''None''"
| "py_str lib (PBool b) = (if b then ''True'' else ''False'')"
| "py_str lib (PInt i) = str_int i"
| "py_str lib (PStr s) = s"
| "py_str lib v = py_repr lib v"

section \<open>The network\<close>

text \<open>
  One call of \<open>urllib.request.urlopen\<close> (with the reads of the body and the headers that
  follow it) either returns a response, raises \<open>HTTPError\<close> carrying the status, headers
  and body of an error response, or fails below HTTP (\<open>URLError\<close>, a timeout, a refused
  connection). An \<open>HTTPError\<close> always has a \<open>read\<close> method and headers, so the
  defaults of \<open>hasattr\<close> and \<open>getattr\<close> in the handler are never taken. The network is
  a transition function on a state of its own, so the same request may be answered
  differently the second time.
\<close>

record request =
  req_method :: string
  req_url :: string
  req_headers :: "(string \<times> string) list"
  req_data :: "string option"
  req_timeout :: pyfloat

datatype outcome =
    Returned int "(string \<times> string) list" string
  | HTTPError int "(string \<times> string) list" string
  | Failure

type_synonym 'w net = "'w \<Rightarrow> request \<Rightarrow> outcome \<times> 'w"

text \<open>The exceptions that leave the program's functions: a failure of the connection, or
  an error of \<open>json.loads\<close> that is not a \<open>JSONDecodeError\<close>.\<close>

datatype error = ConnectionError | LoadsError loads_error

section \<open>The program\<close>

record ProbeResult =
  api_base :: string
  model :: string
  use_legacy_completions_endpoint :: bool

record HttpResponse =
  status :: int
  headers :: "string \<rightharpoonup> string"
  body :: string

definition DEFAULT_CONTEXT :: "string list" where
  "DEFAULT_CONTEXT =
     [''code'', ''docs'', ''diff'', ''terminal'', ''problems'', ''folder'', ''codebase'']"

definition join :: "string \<Rightarrow> string \<Rightarrow> string" where
  "join base path =
     (let base2 = (if base \<noteq> [] \<and> last base = CHR ''/'' then butlast base else base);
          path2 = (if path \<noteq> [] \<and> hd path = CHR ''/'' then path else CHR ''/'' # path)
      in base2 @ path2)"

text \<open>The dictionary comprehension \<open>{k.lower(): v for k, v in items}\<close>: a later item
  overwrites an earlier one with the same lowered name.\<close>

definition lower_keys :: "py_lib \<Rightarrow> (string \<times> string) list \<Rightarrow> (string \<rightharpoonup> string)" where
  "lower_keys lib items = fold (\<lambda>(k, v) m. m(str_lower lib k \<mapsto> v)) items Map.empty"

definition http_request ::
  "py_lib \<Rightarrow> 'w net \<Rightarrow> string \<Rightarrow> string \<Rightarrow> (string \<times> string) list \<Rightarrow> string option \<Rightarrow> pyfloat
     \<Rightarrow> 'w \<Rightarrow> (error + HttpResponse) \<times> 'w" where
  "http_request lib net method url hdrs data timeout_s w =
     (case net w \<lparr>req_method = method, req_url = url, req_headers = hdrs, req_data = data,
                  req_timeout = timeout_s\<rparr> of
        (Returned st hs b, w') \<Rightarrow>
          (Inr \<lparr>status = st, headers = lower_keys lib hs, body = b\<rparr>, w')
      | (HTTPError code hs b, w') \<Rightarrow>
          (Inr \<lparr>status = code, headers = lower_keys lib hs, body = b\<rparr>, w')
      | (Failure, w') \<Rightarrow> (Inl ConnectionError, w'))"

definition auth_headers :: "string \<Rightarrow> (string \<times> string) list" where
  "auth_headers api_key =
     [(''Authorization'', ''Bearer '' @ api_key), (''Content-Type'', ''application/json'')]"

text \<open>The result is a Python object: \<open>PNone\<close> is both "nothing" and the value of the
  JSON text \<open>null\<close>. Only \<open>JSONDecodeError\<close> is caught.\<close>

definition try_json :: "py_lib \<Rightarrow> HttpResponse \<Rightarrow> error + py" where
  "try_json lib resp =
     (if body resp = [] then Inr PNone
      else case json_loads lib (body resp) of
             Parsed v \<Rightarrow> Inr v
           | JSONDecodeError \<Rightarrow> Inr PNone
           | Raised e \<Rightarrow> Inl (LoadsError e))"

definition extract_model_ids :: "py_lib \<Rightarrow> py \<Rightarrow> string list" where
  "extract_model_ids lib payload =
     (if is_dict payload \<and> py_in ''data'' payload \<and> is_list (py_get payload ''data'') then
        map (\<lambda>x. py_str lib (py_get x ''id''))
          (filter (\<lambda>x. is_dict x \<and> py_in ''id'' x) (elems (py_get payload ''data'')))
      else if is_dict payload \<and> py_in ''models'' payload \<and> is_list (py_get payload ''models'') then
        map (\<lambda>x. py_str lib (py_or (py_get x ''id'') (py_get x ''name'')))
          (filter is_dict (elems (py_get payload ''models'')))
      else if is_list payload then
        map (\<lambda>x. py_str lib (py_or (py_get x ''id'') (py_get x ''name'')))
          (filter is_dict (elems payload))
      else [])"

text \<open>The \<open>for\<close> loop of \<open>_pick_model\<close>; \<open>None\<close> when it runs to its end.\<close>

fun scan_hint :: "py_lib \<Rightarrow> string \<Rightarrow> string list \<Rightarrow> string option" where
  "scan_hint lib hint [] = None"
| "scan_hint lib hint (mid # rest) =
     (if sublist (str_lower lib hint) (str_lower lib mid) then Some mid
      else scan_hint lib hint rest)"

definition pick_model :: "py_lib \<Rightarrow> string list \<Rightarrow> string \<Rightarrow> string option" where
  "pick_model lib model_ids hint =
     (case model_ids of
        [] \<Rightarrow> None
      | first # _ \<Rightarrow>
          (case (if hint \<noteq> [] then scan_hint lib hint model_ids else None) of
             Some mid \<Rightarrow> Some mid
           | None \<Rightarrow> Some first))"

definition candidate_api_bases :: "string \<Rightarrow> int \<Rightarrow> string list" where
  "candidate_api_bases host port =
     (let root = ''http://'' @ host @ '':'' @ str_int port
      in [root @ ''/api'', root @ ''/v1'', root @ ''/api/openai/v1'', root @ ''/api/openai/v1'',
          root])"

definition attempt_note :: "string \<Rightarrow> int \<Rightarrow> string" where
  "attempt_note url st = url @ '' -> '' @ str_int st"

definition probe_models ::
  "py_lib \<Rightarrow> 'w net \<Rightarrow> string \<Rightarrow> string \<Rightarrow> pyfloat \<Rightarrow> 'w
     \<Rightarrow> (error + (string list option \<times> string)) \<times> 'w" where
  "probe_models lib net base api_key timeout_s w =
     (let url = join base ''/models'' in
      case http_request lib net ''GET'' url (auth_headers api_key) None timeout_s w of
        (Inl e, w') \<Rightarrow> (Inl e, w')
      | (Inr resp, w') \<Rightarrow>
          (case try_json lib resp of
             Inl e \<Rightarrow> (Inl e, w')
           | Inr payload \<Rightarrow>
               (let ids = (if status resp = 200 then Some (extract_model_ids lib payload)
                           else None)
                in (Inr (ids, attempt_note url (status resp)), w'))))"

definition chat_payload :: "py_lib \<Rightarrow> string \<Rightarrow> string" where
  "chat_payload lib m =
     json_dumps lib (PDict [(''model'', PStr m),
       (''messages'', PList [PDict [(''role'', PStr ''user''), (''content'', PStr ''ping'')]]),
       (''stream'', PBool False)])"

definition legacy_payload :: "py_lib \<Rightarrow> string \<Rightarrow> string" where
  "legacy_payload lib m =
     json_dumps lib (PDict [(''model'', PStr m), (''prompt'', PStr ''ping''),
       (''max_tokens'', PInt 8)])"

text \<open>In \<open>resp.status == 200 and _try_json(resp) is not None\<close> the body is decoded only
  when the status is 200.\<close>

definition probe_chat ::
  "py_lib \<Rightarrow> 'w net \<Rightarrow> string \<Rightarrow> string \<Rightarrow> string \<Rightarrow> pyfloat \<Rightarrow> 'w
     \<Rightarrow> (error + (bool \<times> string)) \<times> 'w" where
  "probe_chat lib net base api_key m timeout_s w =
     (let url = join base ''/chat/completions'' in
      case http_request lib net ''POST'' url (auth_headers api_key) (Some (chat_payload lib m))
             timeout_s w of
        (Inl e, w') \<Rightarrow> (Inl e, w')
      | (Inr resp, w') \<Rightarrow>
          if status resp = 200 then
            (case try_json lib resp of
               Inl e \<Rightarrow> (Inl e, w')
             | Inr v \<Rightarrow> (Inr (v \<noteq> PNone, attempt_note url (status resp)), w'))
          else (Inr (False, attempt_note url (status resp)), w'))"

definition probe_legacy_completions ::
  "py_lib \<Rightarrow> 'w net \<Rightarrow> string \<Rightarrow> string \<Rightarrow> string \<Rightarrow> pyfloat \<Rightarrow> 'w
     \<Rightarrow> (error + (bool \<times> string)) \<times> 'w" where
  "probe_legacy_completions lib net base api_key m timeout_s w =
     (let url = join base ''/completions'';
          data = legacy_payload lib m in
      case http_request lib net ''POST'' url (auth_headers api_key) (Some data) timeout_s w of
        (Inl e, w') \<Rightarrow> (Inl e, w')
      | (Inr resp, w') \<Rightarrow>
          if status resp = 200 then
            (case try_json lib resp of
               Inl e \<Rightarrow> (Inl e, w')
             | Inr v \<Rightarrow> (Inr (v \<noteq> PNone, attempt_note url (status resp)), w'))
          else (Inr (False, attempt_note url (status resp)), w'))"

definition replace_char :: "char \<Rightarrow> string \<Rightarrow> string \<Rightarrow> string" where
  "replace_char old new s = concat (map (\<lambda>c. if c = old then new else [c]) s)"

definition yaml_quote :: "string \<Rightarrow> string" where
  "yaml_quote s =
     (let s2 = replace_char (CHR ''\"'') [CHR 0x5C, CHR ''\"'']
                 (replace_char (CHR 0x5C) [CHR 0x5C, CHR 0x5C] s)
      in [CHR ''\"''] @ s2 @ [CHR ''\"''])"

fun str_join :: "string \<Rightarrow> string list \<Rightarrow> string" where
  "str_join sep [] = []"
| "str_join sep [x] = x"
| "str_join sep (x # y # ys) = x @ sep @ str_join sep (y # ys)"

definition render_lines :: "ProbeResult \<Rightarrow> string \<Rightarrow> string \<Rightarrow> string \<Rightarrow> string list" where
  "render_lines result api_key title model_name =
     [''name: '' @ title,
      ''version: 1.0.0'',
      ''schema: v1'',
      ''models:'',
      ''  - name: '' @ model_name,
      ''    provider: openai'',
      ''    model: '' @ model result,
      ''    env:'',
      ''      useLegacyCompletionsEndpoint: ''
        @ (if use_legacy_completions_endpoint result then ''true'' else ''false''),
      ''    apiBase: '' @ api_base result,
      ''    apiKey: '' @ yaml_quote api_key,
      ''    roles:'',
      ''      - chat'',
      ''      - edit'',
      ''context:'']
     @ map (\<lambda>item. ''  - provider: '' @ item) DEFAULT_CONTEXT
     @ ['''']"

definition render_yaml :: "ProbeResult \<Rightarrow> string \<Rightarrow> string \<Rightarrow> string \<Rightarrow> string" where
  "render_yaml result api_key title model_name =
     str_join [CHR 0x0A] (render_lines result api_key title model_name)"

text \<open>
  The loop of \<open>_best_effort_probe\<close> over the candidate bases still to try, with the notes
  gathered so far. An exception raised by a request, or by the decoding of a response
  body, leaves the loop and the function; the notes are lost with it.
\<close>

fun probe_loop ::
  "py_lib \<Rightarrow> 'w net \<Rightarrow> string \<Rightarrow> string \<Rightarrow> pyfloat \<Rightarrow> string list \<Rightarrow> string list \<Rightarrow> 'w
     \<Rightarrow> (error + (ProbeResult option \<times> string list)) \<times> 'w" where
  "probe_loop lib net api_key model_hint timeout_s [] notes w = (Inr (None, notes), w)"
| "probe_loop lib net api_key model_hint timeout_s (base # rest) notes w =
     (case probe_models lib net base api_key timeout_s w of
        (Inl e, w1) \<Rightarrow> (Inl e, w1)
      | (Inr (ids, n1), w1) \<Rightarrow>
          (let notes1 = notes @ [n1];
               picked = (case ids of
                           None \<Rightarrow> None
                         | Some xs \<Rightarrow> pick_model lib (if xs \<noteq> [] then xs else []) model_hint)
           in case picked of
                None \<Rightarrow> probe_loop lib net api_key model_hint timeout_s rest notes1 w1
              | Some m \<Rightarrow>
                  if m = [] then probe_loop lib net api_key model_hint timeout_s rest notes1 w1
                  else
                    (case probe_chat lib net base api_key m timeout_s w1 of
                       (Inl e, w2) \<Rightarrow> (Inl e, w2)
                     | (Inr (ok, n2), w2) \<Rightarrow>
                         (let notes2 = notes1 @ [n2] in
                          if ok then
                            (Inr (Some \<lparr>api_base = base, model = m,
                                        use_legacy_completions_endpoint = False\<rparr>, notes2), w2)
                          else
                            (case probe_legacy_completions lib net base api_key m timeout_s w2 of
                               (Inl e, w3) \<Rightarrow> (Inl e, w3)
                             | (Inr (ok2, n3), w3) \<Rightarrow>
                                 (let notes3 = notes2 @ [n3] in
                                  if ok2 then
                                    (Inr (Some \<lparr>api_base = base, model = m,
                                                use_legacy_completions_endpoint = True\<rparr>,
                                          notes3), w3)
                                  else
                                    probe_loop lib net api_key model_hint timeout_s rest notes3
                                      w3))))))"

definition best_effort_probe ::
  "py_lib \<Rightarrow> 'w net \<Rightarrow> string \<Rightarrow> int \<Rightarrow> string \<Rightarrow> string \<Rightarrow> pyfloat \<Rightarrow> 'w
     \<Rightarrow> (error + (ProbeResult option \<times> string list)) \<times> 'w" where
  "best_effort_probe lib net host port api_key model_hint timeout_s w =
     probe_loop lib net api_key model_hint timeout_s (candidate_api_bases host port) [] w"

section \<open>Observing the requests of a run\<close>

text \<open>
  A network that also records, in order, each request it receives and how it answered.
  Running the program on \<open>logged net\<close> from \<open>(w, [])\<close> gives the result of running it
  on \<open>net\<close> from \<open>w\<close>, together with the requests the run issued.
\<close>

definition logged :: "'w net \<Rightarrow> ('w \<times> (request \<times> outcome) list) net" where
  "logged net = (\<lambda>(w, tr) req. case net w req of (out, w') \<Rightarrow> (out, (w', tr @ [(req, out)])))"

text \<open>
  Every \<open>/models\<close> request along the loop is answered with a status other than 200 or
  with a body that yields no ids, and decoding the body of the response raises no error.
\<close>

fun models_unusable ::
  "py_lib \<Rightarrow> 'w net \<Rightarrow> string \<Rightarrow> pyfloat \<Rightarrow> string list \<Rightarrow> 'w \<Rightarrow> bool" where
  "models_unusable lib net api_key timeout_s [] w = True"
| "models_unusable lib net api_key timeout_s (base # rest) w =
     (case http_request lib net ''GET'' (join base ''/models'') (auth_headers api_key) None
             timeout_s w of
        (Inl e, w1) \<Rightarrow> False
      | (Inr resp, w1) \<Rightarrow>
          (case try_json lib resp of
             Inl e \<Rightarrow> False
           | Inr payload \<Rightarrow>
               (status resp \<noteq> 200 \<or> extract_model_ids lib payload = []) \<and>
               models_unusable lib net api_key timeout_s rest w1))"

text \<open>Every \<open>/models\<close> probe along the loop reports no ids.\<close>

fun models_all_fail ::
  "py_lib \<Rightarrow> 'w net \<Rightarrow> string \<Rightarrow> pyfloat \<Rightarrow> string list \<Rightarrow> 'w \<Rightarrow> bool" where
  "models_all_fail lib net api_key timeout_s [] w = True"
| "models_all_fail lib net api_key timeout_s (base # rest) w =
     (case probe_models lib net base api_key timeout_s w of
        (Inl e, w1) \<Rightarrow> False
      | (Inr (ids, n1), w1) \<Rightarrow>
          (ids = None \<or> ids = Some []) \<and> models_all_fail lib net api_key timeout_s rest w1)"

text \<open>
  A well-formed record of a run: no request but the last failed below HTTP, the run
  ended with the connection error (\<open>failed\<close>) exactly when the last one did, and every
  POST carries the chat or the legacy payload of a non-empty model identifier.
\<close>

definition trace_ok :: "py_lib \<Rightarrow> bool \<Rightarrow> (request \<times> outcome) list \<Rightarrow> bool" where
  "trace_ok lib failed trs \<longleftrightarrow>
     (\<forall>e\<in>set (butlast trs). snd e \<noteq> Failure) \<and>
     (failed \<longleftrightarrow> trs \<noteq> [] \<and> snd (last trs) = Failure) \<and>
     (\<forall>e\<in>set trs. req_method (fst e) = ''POST'' \<longrightarrow>
        (\<exists>m. m \<noteq> [] \<and> (req_data (fst e) = Some (chat_payload lib m) \<or>
                          req_data (fst e) = Some (legacy_payload lib m))))"

section \<open>Lines of a text\<close>

text \<open>
  The lines of a text, as \<open>split("\n")\<close> gives them, and among them the
  context-provider lines: those that begin as the renderer's provider entries do.
\<close>

fun split_lines :: "string \<Rightarrow> string list" where
  "split_lines [] = [[]]"
| "split_lines (c # cs) =
     (if c = CHR 0x0A then [] # split_lines cs
      else case split_lines cs of [] \<Rightarrow> [[c]] | l # ls \<Rightarrow> (c # l) # ls)"

definition provider_lines :: "string \<Rightarrow> string list" where
  "provider_lines doc = filter (prefix ''  - provider: '') (split_lines doc)"

section \<open>Concrete inputs\<close>

text \<open>
  The library functions on the arguments the runs below pass them: \<open>str.lower\<close> on ASCII
  text; \<open>json.dumps\<close> and \<open>repr\<close> on values whose strings need no escaping (the only
  floats rendered are the not-a-number and zero); \<open>json.loads\<close> on the bodies the
  servers below send, on the literal \<open>NaN\<close>, which it accepts, and on an integer
  literal of more than 4300 digits, on which it raises \<open>ValueError\<close>.
\<close>

definition ascii_lower :: "string \<Rightarrow> string" where
  "ascii_lower s =
     map (\<lambda>c. case map_of (zip ''ABCDEFGHIJKLMNOPQRSTUVWXYZ'' ''abcdefghijklmnopqrstuvwxyz'') c of
                 None \<Rightarrow> c | Some d \<Rightarrow> d) s"

definition nan :: pyfloat where
  "nan = 0x7FF8000000000000"

fun dumps :: "py \<Rightarrow> string" where
  "dumps PNone = ''null''"
| "dumps (PBool b) = (if b then ''true'' else ''false'')"
| "dumps (PInt i) = str_int i"
| "dumps (PFloat f) = (if f = nan then ''NaN'' else ''0.0'')"
| "dumps (PStr s) = [CHR ''\"''] @ s @ [CHR ''\"'']"
| "dumps (PList xs) = ''['' @ str_join '', '' (map dumps xs) @ '']''"
| "dumps (PDict kvs) =
     ''{'' @ str_join '', ''
              (map (\<lambda>(k, v). [CHR ''\"''] @ k @ [CHR ''\"''] @ '': '' @ dumps v) kvs) @ ''}''"

fun repr :: "py \<Rightarrow> string" where
  "repr PNone = ''None''"
| "repr (PBool b) = (if b then ''True'' else ''False'')"
| "repr (PInt i) = str_int i"
| "repr (PFloat f) = (if f = nan then ''nan'' else ''0.0'')"
| "repr (PStr s) = [CHR 0x27] @ s @ [CHR 0x27]"
| "repr (PList xs) = ''['' @ str_join '', '' (map repr xs) @ '']''"
| "repr (PDict kvs) =
     ''{'' @ str_join '', ''
              (map (\<lambda>(k, v). [CHR 0x27] @ k @ [CHR 0x27] @ '': '' @ repr v) kvs) @ ''}''"

definition models_payload :: py where
  "models_payload = PDict [(''data'', PList [PDict [(''id'', PStr ''llama3:latest'')]])]"

definition test_loads :: "string \<Rightarrow> loads_result" where
  "test_loads b =
     (if 4300 < length b \<and> set b \<subseteq> set ''0123456789'' then Raised ValueError
      else
        case map_of
          [(''{\"data\": [{\"id\": \"llama3:latest\"}]}'', models_payload),
           (''{\"choices\": [{\"message\": {\"content\": \"pong\"}}]}'',
              PDict [(''choices'',
                      PList [PDict [(''message'', PDict [(''content'', PStr ''pong'')])]])]),
           (''{\"choices\": [{\"text\": \"pong\"}]}'',
              PDict [(''choices'', PList [PDict [(''text'', PStr ''pong'')]])]),
           (''{\"error\": \"nope\"}'', PDict [(''error'', PStr ''nope'')]),
           (''{\"error\":\"not_found\"}'', PDict [(''error'', PStr ''not_found'')]),
           (''{\"error\":\"unauthorized\"}'', PDict [(''error'', PStr ''unauthorized'')]),
           (''{\"data\": [{\"id\": \"\"}]}'',
              PDict [(''data'', PList [PDict [(''id'', PStr [])]])]),
           (''NaN'', PFloat nan),
           (''null'', PNone)] b of
          None \<Rightarrow> JSONDecodeError
        | Some v \<Rightarrow> Parsed v)"

definition test_lib :: py_lib where
  "test_lib =
     \<lparr>json_loads = test_loads, json_dumps = dumps, py_repr = repr, str_lower = ascii_lower\<rparr>"

text \<open>
  The HTTP server of \<open>tests/test_probe.py\<close>: 401 without the expected bearer token, 404
  for a path without a route, the route's status and body otherwise. Each response has
  the \<open>Server\<close> and \<open>Date\<close> headers of \<open>BaseHTTPRequestHandler\<close> and the handler's
  \<open>Content-Type\<close>. \<open>urlopen\<close> returns on status 200 and raises \<open>HTTPError\<close> on the
  others.
\<close>

definition json_ct :: "(string \<times> string) list" where
  "json_ct =
     [(''Server'', ''BaseHTTP/0.6 Python/3.12.3''),
      (''Date'', ''Wed, 04 Nov 2026 09:00:00 GMT''),
      (''Content-Type'', ''application/json'')]"

definition test_server ::
  "string \<Rightarrow> ((string \<times> string) \<times> (int \<times> string)) list \<Rightarrow> unit net" where
  "test_server root routes w req =
     ((if map_of (req_headers req) ''Authorization'' \<noteq> Some ''Bearer sk-test'' then
         HTTPError 401 json_ct ''{\"error\":\"unauthorized\"}''
       else
         case map_of (map (\<lambda>((m, p), r). ((m, root @ p), r)) routes)
                (req_method req, req_url req) of
           None \<Rightarrow> HTTPError 404 json_ct ''{\"error\":\"not_found\"}''
         | Some (code, b) \<Rightarrow>
             if code = 200 then Returned code json_ct b else HTTPError code json_ct b),
      w)"

definition routes_chat :: "((string \<times> string) \<times> (int \<times> string)) list" where
  "routes_chat =
     [((''GET'', ''/api/models''), (200, ''{\"data\": [{\"id\": \"llama3:latest\"}]}'')),
      ((''POST'', ''/api/chat/completions''),
         (200, ''{\"choices\": [{\"message\": {\"content\": \"pong\"}}]}''))]"

definition routes_legacy :: "((string \<times> string) \<times> (int \<times> string)) list" where
  "routes_legacy =
     [((''GET'', ''/api/models''), (200, ''{\"data\": [{\"id\": \"llama3:latest\"}]}'')),
      ((''POST'', ''/api/chat/completions''), (404, ''{\"error\": \"nope\"}'')),
      ((''POST'', ''/api/completions''), (200, ''{\"choices\": [{\"text\": \"pong\"}]}''))]"


text \<open>A server whose model list holds one entry, with the empty string as its id.\<close>

definition routes_blank :: "((string \<times> string) \<times> (int \<times> string)) list" where
  "routes_blank = [((''GET'', ''/api/models''), (200, ''{\"data\": [{\"id\": \"\"}]}''))]"

text \<open>A network on which the first base times out and every other URL is served by the
  test server.\<close>

definition flaky_net :: "unit net" where
  "flaky_net w req =
     (if req_url req = ''http://127.0.0.1:8080/api/models'' then (Failure, w)
      else test_server ''http://127.0.0.1:8080''
             [((''GET'', ''/v1/models''), (200, ''{\"data\": [{\"id\": \"llama3:latest\"}]}'')),
              ((''POST'', ''/v1/chat/completions''),
                 (200, ''{\"choices\": [{\"message\": {\"content\": \"pong\"}}]}''))] w req)"

text \<open>A server that answers every request with status 404 and an integer literal of 5000
  digits as the body.\<close>

definition long_number :: string where
  "long_number = replicate 5000 (CHR ''1'')"

definition number_server :: "unit net" where
  "number_server w req = (HTTPError 404 json_ct long_number, w)"

section \<open>Auxiliary facts\<close>

lemma str_int_vals:
  "str_int 200 = ''200''" "str_int 404 = ''404''" "str_int 401 = ''401''"
  "str_int 8080 = ''8080''"
  by (simp_all add: str_int_def digits.simps digit_char_def)

lemma scan_hint_None: "scan_hint lib hint ids = None \<longleftrightarrow> (\<forall>m\<in>set ids. \<not> sublist (str_lower lib hint) (str_lower lib m))"
  by (induction ids) auto

lemma scan_hint_first:
  "i < length ids \<Longrightarrow> sublist (str_lower lib hint) (str_lower lib (ids ! i)) \<Longrightarrow>
   (\<forall>j<i. \<not> sublist (str_lower lib hint) (str_lower lib (ids ! j))) \<Longrightarrow>
   scan_hint lib hint ids = Some (ids ! i)"
proof (induction ids arbitrary: i)
  case Nil
  then show ?case by simp
next
  case (Cons a ids)
  show ?case
  proof (cases i)
    case 0
    with Cons.prems show ?thesis by simp
  next
    case (Suc k)
    from Cons.prems Suc have "\<not> sublist (str_lower lib hint) (str_lower lib a)" by auto
    moreover have "scan_hint lib hint ids = Some (ids ! k)"
      using Cons.prems Suc by (intro Cons.IH) auto
    ultimately show ?thesis using Suc by simp
  qed
qed

lemma lower_keys_fold_dom:
  "dom (fold (\<lambda>(k, v) m. m(f k \<mapsto> v)) items m0) = dom m0 \<union> f ` fst ` set items"
  by (induction items arbitrary: m0) (auto split: prod.splits)

lemma lower_keys_fold_val:
  "fold (\<lambda>(k, v) m. m(f k \<mapsto> v)) items m0 k' = Some v' \<Longrightarrow>
     m0 k' = Some v' \<or> (\<exists>k0. (k0, v') \<in> set items \<and> f k0 = k')"
proof (induction items arbitrary: m0)
  case Nil
  then show ?case by simp
next
  case (Cons a items)
  obtain k v where a: "a = (k, v)" by (cases a)
  have "fold (\<lambda>(k, v) m. m(f k \<mapsto> v)) items (m0(f k \<mapsto> v)) k' = Some v'"
    using Cons.prems unfolding a by (simp only: fold_simps comp_apply prod.case)
  from Cons.IH[OF this] have
    "(m0(f k \<mapsto> v)) k' = Some v' \<or> (\<exists>k0. (k0, v') \<in> set items \<and> f k0 = k')" .
  then show ?case unfolding a
    by (cases "k' = f k") auto
qed

lemma dom_lower_keys: "dom (lower_keys lib hs) = str_lower lib ` fst ` set hs"
  by (simp add: lower_keys_def lower_keys_fold_dom)

lemma lower_keys_val:
  "lower_keys lib hs k = Some v \<Longrightarrow> \<exists>k0. (k0, v) \<in> set hs \<and> str_lower lib k0 = k"
  using lower_keys_fold_val[of "str_lower lib" hs Map.empty k v] by (simp add: lower_keys_def)

subsection \<open>One iteration of the loop\<close>

lemma pick_model_or_empty [simp]: "pick_model lib (if xs \<noteq> [] then xs else []) hint = pick_model lib xs hint"
  by simp

lemma probe_loop_Cons_cases [consumes 1, case_names models_err skip chat_err chat_ok legacy_err legacy_ok both_fail]:
  assumes "probe_loop lib net k h t (b # rest) notes w = res"
  obtains
    (models_err) e w1 where "probe_models lib net b k t w = (Inl e, w1)" "res = (Inl e, w1)"
  | (skip) ids n1 w1 where "probe_models lib net b k t w = (Inr (ids, n1), w1)"
      "ids = None \<or> (\<exists>xs. ids = Some xs \<and> (pick_model lib xs h = None \<or> pick_model lib xs h = Some []))"
      "res = probe_loop lib net k h t rest (notes @ [n1]) w1"
  | (chat_err) xs n1 w1 m e w2 where "probe_models lib net b k t w = (Inr (Some xs, n1), w1)"
      "pick_model lib xs h = Some m" "m \<noteq> []"
      "probe_chat lib net b k m t w1 = (Inl e, w2)" "res = (Inl e, w2)"
  | (chat_ok) xs n1 w1 m n2 w2 where "probe_models lib net b k t w = (Inr (Some xs, n1), w1)"
      "pick_model lib xs h = Some m" "m \<noteq> []"
      "probe_chat lib net b k m t w1 = (Inr (True, n2), w2)"
      "res = (Inr (Some \<lparr>api_base = b, model = m, use_legacy_completions_endpoint = False\<rparr>,
                   notes @ [n1, n2]), w2)"
  | (legacy_err) xs n1 w1 m n2 w2 e w3 where "probe_models lib net b k t w = (Inr (Some xs, n1), w1)"
      "pick_model lib xs h = Some m" "m \<noteq> []"
      "probe_chat lib net b k m t w1 = (Inr (False, n2), w2)"
      "probe_legacy_completions lib net b k m t w2 = (Inl e, w3)" "res = (Inl e, w3)"
  | (legacy_ok) xs n1 w1 m n2 w2 n3 w3 where "probe_models lib net b k t w = (Inr (Some xs, n1), w1)"
      "pick_model lib xs h = Some m" "m \<noteq> []"
      "probe_chat lib net b k m t w1 = (Inr (False, n2), w2)"
      "probe_legacy_completions lib net b k m t w2 = (Inr (True, n3), w3)"
      "res = (Inr (Some \<lparr>api_base = b, model = m, use_legacy_completions_endpoint = True\<rparr>,
                   notes @ [n1, n2, n3]), w3)"
  | (both_fail) xs n1 w1 m n2 w2 n3 w3 where "probe_models lib net b k t w = (Inr (Some xs, n1), w1)"
      "pick_model lib xs h = Some m" "m \<noteq> []"
      "probe_chat lib net b k m t w1 = (Inr (False, n2), w2)"
      "probe_legacy_completions lib net b k m t w2 = (Inr (False, n3), w3)"
      "res = probe_loop lib net k h t rest (notes @ [n1, n2, n3]) w3"
proof -
  obtain r1 w1 where pm: "probe_models lib net b k t w = (r1, w1)"
    by (cases "probe_models lib net b k t w")
  show thesis
  proof (cases r1)
    case (Inl e)
    with pm assms show thesis by (intro models_err[of e w1]) auto
  next
    case (Inr p)
    obtain ids n1 where p: "p = (ids, n1)" by (cases p)
    show thesis
    proof (cases "ids = None \<or> (\<exists>xs. ids = Some xs \<and> (pick_model lib xs h = None \<or> pick_model lib xs h = Some []))")
      case True
      with pm Inr p assms show thesis
        by (intro skip[of ids n1 w1]) (auto simp: Let_def)
    next
      case False
      then obtain xs m where xs: "ids = Some xs" "pick_model lib xs h = Some m" "m \<noteq> []"
        by (cases ids) auto
      obtain r2 w2 where pc: "probe_chat lib net b k m t w1 = (r2, w2)"
        by (cases "probe_chat lib net b k m t w1")
      show thesis
      proof (cases r2)
        case (Inl e)
        with pm Inr p xs pc assms show thesis
          by (intro chat_err[of xs n1 w1 m e w2]) (auto simp: Let_def)
      next
        case r2: (Inr q)
        obtain ok n2 where q: "q = (ok, n2)" by (cases q)
        show thesis
        proof (cases ok)
          case True
          with pm Inr p xs pc r2 q assms show thesis
            by (intro chat_ok[of xs n1 w1 m n2 w2]) (auto simp: Let_def)
        next
          case nok: False
          obtain r3 w3 where pl: "probe_legacy_completions lib net b k m t w2 = (r3, w3)"
            by (cases "probe_legacy_completions lib net b k m t w2")
          show thesis
          proof (cases r3)
            case (Inl e)
            with pm Inr p xs pc r2 q nok pl assms show thesis
              by (intro legacy_err[of xs n1 w1 m n2 w2 e w3]) (auto simp: Let_def)
          next
            case r3: (Inr q3)
            obtain ok2 n3 where q3: "q3 = (ok2, n3)" by (cases q3)
            show thesis
            proof (cases ok2)
              case True
              with pm Inr p xs pc r2 q nok pl r3 q3 assms show thesis
                by (intro legacy_ok[of xs n1 w1 m n2 w2 n3 w3]) (auto simp: Let_def)
            next
              case False
              with pm Inr p xs pc r2 q nok pl r3 q3 assms show thesis
                by (intro both_fail[of xs n1 w1 m n2 w2 n3 w3]) (auto simp: Let_def)
            qed
          qed
        qed
      qed
    qed
  qed
qed

subsection \<open>Logged runs\<close>

lemma try_json_not_connection [simp]: "try_json lib resp \<noteq> Inl ConnectionError"
  by (simp add: try_json_def split: loads_result.splits)

lemma logged_apply: "logged net (w, tr) req = (fst (net w req), (snd (net w req), tr @ [(req, fst (net w req))]))"
  by (simp add: logged_def split: prod.splits)

lemma http_request_logged:
  assumes "http_request lib (logged net) m u h d t (w, tr) = (r, s')"
  shows "\<exists>req out w'. net w req = (out, w') \<and> s' = (w', tr @ [(req, out)]) \<and>
           http_request lib net m u h d t w = (r, w') \<and> (r = Inl ConnectionError \<longleftrightarrow> out = Failure) \<and>
           req_method req = m \<and> req_url req = u \<and> req_data req = d"
  using assms
  by (auto simp: http_request_def logged_apply split: prod.splits outcome.splits)

lemma probe_models_logged:
  assumes "probe_models lib (logged net) b k t (w, tr) = (r, s')"
  shows "\<exists>req out w'. s' = (w', tr @ [(req, out)]) \<and> probe_models lib net b k t w = (r, w') \<and>
           (r = Inl ConnectionError \<longleftrightarrow> out = Failure) \<and> req_method req = ''GET'' \<and> req_url req = join b ''/models''"
proof -
  obtain r0 s0 where h: "http_request lib (logged net) ''GET'' (join b ''/models'') (auth_headers k) None t (w, tr) = (r0, s0)"
    by (cases "http_request lib (logged net) ''GET'' (join b ''/models'') (auth_headers k) None t (w, tr)")
  from http_request_logged[OF h] obtain req out w' where
    *: "s0 = (w', tr @ [(req, out)])" "http_request lib net ''GET'' (join b ''/models'') (auth_headers k) None t w = (r0, w')"
       "r0 = Inl ConnectionError \<longleftrightarrow> out = Failure" "req_method req = ''GET''" "req_url req = join b ''/models''"
    by blast
  from assms h * show ?thesis
    by (cases r0) (auto simp: probe_models_def Let_def split: sum.splits)
qed

lemma probe_chat_logged:
  assumes "probe_chat lib (logged net) b k m t (w, tr) = (r, s')"
  shows "\<exists>req out w'. s' = (w', tr @ [(req, out)]) \<and> probe_chat lib net b k m t w = (r, w') \<and>
           (r = Inl ConnectionError \<longleftrightarrow> out = Failure) \<and> req_method req = ''POST'' \<and> req_data req = Some (chat_payload lib m)"
proof -
  obtain r0 s0 where h: "http_request lib (logged net) ''POST'' (join b ''/chat/completions'') (auth_headers k) (Some (chat_payload lib m)) t (w, tr) = (r0, s0)"
    by (cases "http_request lib (logged net) ''POST'' (join b ''/chat/completions'') (auth_headers k) (Some (chat_payload lib m)) t (w, tr)")
  from http_request_logged[OF h] obtain req out w' where
    *: "s0 = (w', tr @ [(req, out)])" "http_request lib net ''POST'' (join b ''/chat/completions'') (auth_headers k) (Some (chat_payload lib m)) t w = (r0, w')"
       "r0 = Inl ConnectionError \<longleftrightarrow> out = Failure" "req_method req = ''POST''" "req_data req = Some (chat_payload lib m)"
    by blast
  from assms h * show ?thesis
    by (cases r0) (auto simp: probe_chat_def Let_def split: sum.splits if_splits)
qed

lemma probe_legacy_logged:
  assumes "probe_legacy_completions lib (logged net) b k m t (w, tr) = (r, s')"
  shows "\<exists>req out w'. s' = (w', tr @ [(req, out)]) \<and> probe_legacy_completions lib net b k m t w = (r, w') \<and>
           (r = Inl ConnectionError \<longleftrightarrow> out = Failure) \<and> req_method req = ''POST'' \<and> req_data req = Some (legacy_payload lib m)"
proof -
  obtain r0 s0 where h: "http_request lib (logged net) ''POST'' (join b ''/completions'') (auth_headers k) (Some (legacy_payload lib m)) t (w, tr) = (r0, s0)"
    by (cases "http_request lib (logged net) ''POST'' (join b ''/completions'') (auth_headers k) (Some (legacy_payload lib m)) t (w, tr)")
  from http_request_logged[OF h] obtain req out w' where
    *: "s0 = (w', tr @ [(req, out)])" "http_request lib net ''POST'' (join b ''/completions'') (auth_headers k) (Some (legacy_payload lib m)) t w = (r0, w')"
       "r0 = Inl ConnectionError \<longleftrightarrow> out = Failure" "req_method req = ''POST''" "req_data req = Some (legacy_payload lib m)"
    by blast
  from assms h * show ?thesis
    by (cases r0) (auto simp: probe_legacy_completions_def Let_def split: sum.splits if_splits)
qed

text \<open>The logged run projects to the plain run.\<close>

lemma probe_loop_logged:
  "probe_loop lib (logged net) k h t bases ns (w, tr) = (r, (w', tr')) \<Longrightarrow>
     probe_loop lib net k h t bases ns w = (r, w')"
proof (induction bases arbitrary: ns w tr)
  case Nil
  then show ?case by simp
next
  case (Cons b rest)
  from Cons.prems show ?case
  proof (cases rule: probe_loop_Cons_cases)
    case (models_err e s1)
    then show ?thesis using probe_models_logged[OF models_err(1)] by auto
  next
    case (skip ids n1 s1)
    from probe_models_logged[OF skip(1)] obtain w1 tr1 where
      s1: "s1 = (w1, tr1)" and pm: "probe_models lib net b k t w = (Inr (ids, n1), w1)" by blast
    from skip(3) s1 have "probe_loop lib net k h t rest (ns @ [n1]) w1 = (r, w')"
      by (intro Cons.IH[of _ _ tr1]) simp
    with pm skip(2) show ?thesis by (auto simp: Let_def)
  next
    case (chat_err xs n1 s1 m e s2)
    from probe_models_logged[OF chat_err(1)] obtain w1 tr1 where
      s1: "s1 = (w1, tr1)" and pm: "probe_models lib net b k t w = (Inr (Some xs, n1), w1)" by blast
    from probe_chat_logged[OF chat_err(4)[unfolded s1]] chat_err(5)
    have "probe_chat lib net b k m t w1 = (Inl e, w')" "r = Inl e" by auto
    with pm chat_err show ?thesis by (auto simp: Let_def)
  next
    case (chat_ok xs n1 s1 m n2 s2)
    from probe_models_logged[OF chat_ok(1)] obtain w1 tr1 where
      s1: "s1 = (w1, tr1)" and pm: "probe_models lib net b k t w = (Inr (Some xs, n1), w1)" by blast
    from probe_chat_logged[OF chat_ok(4)[unfolded s1]] chat_ok(5)
    have "probe_chat lib net b k m t w1 = (Inr (True, n2), w')" by auto
    with pm chat_ok show ?thesis by (auto simp: Let_def)
  next
    case (legacy_err xs n1 s1 m n2 s2 e s3)
    from probe_models_logged[OF legacy_err(1)] obtain w1 tr1 where
      s1: "s1 = (w1, tr1)" and pm: "probe_models lib net b k t w = (Inr (Some xs, n1), w1)" by blast
    from probe_chat_logged[OF legacy_err(4)[unfolded s1]] obtain w2 tr2 where
      s2: "s2 = (w2, tr2)" and pc: "probe_chat lib net b k m t w1 = (Inr (False, n2), w2)" by blast
    from probe_legacy_logged[OF legacy_err(5)[unfolded s2]] legacy_err(6)
    have "probe_legacy_completions lib net b k m t w2 = (Inl e, w')" "r = Inl e" by auto
    with pm pc legacy_err show ?thesis by (auto simp: Let_def)
  next
    case (legacy_ok xs n1 s1 m n2 s2 n3 s3)
    from probe_models_logged[OF legacy_ok(1)] obtain w1 tr1 where
      s1: "s1 = (w1, tr1)" and pm: "probe_models lib net b k t w = (Inr (Some xs, n1), w1)" by blast
    from probe_chat_logged[OF legacy_ok(4)[unfolded s1]] obtain w2 tr2 where
      s2: "s2 = (w2, tr2)" and pc: "probe_chat lib net b k m t w1 = (Inr (False, n2), w2)" by blast
    from probe_legacy_logged[OF legacy_ok(5)[unfolded s2]] legacy_ok(6)
    have "probe_legacy_completions lib net b k m t w2 = (Inr (True, n3), w')" by auto
    with pm pc legacy_ok show ?thesis by (auto simp: Let_def)
  next
    case (both_fail xs n1 s1 m n2 s2 n3 s3)
    from probe_models_logged[OF both_fail(1)] obtain w1 tr1 where
      s1: "s1 = (w1, tr1)" and pm: "probe_models lib net b k t w = (Inr (Some xs, n1), w1)" by blast
    from probe_chat_logged[OF both_fail(4)[unfolded s1]] obtain w2 tr2 where
      s2: "s2 = (w2, tr2)" and pc: "probe_chat lib net b k m t w1 = (Inr (False, n2), w2)" by blast
    from probe_legacy_logged[OF both_fail(5)[unfolded s2]] obtain w3 tr3 where
      s3: "s3 = (w3, tr3)" and pl: "probe_legacy_completions lib net b k m t w2 = (Inr (False, n3), w3)" by blast
    from both_fail(6) s3 have "probe_loop lib net k h t rest (ns @ [n1, n2, n3]) w3 = (r, w')"
      by (intro Cons.IH[of _ _ tr3]) simp
    with pm pc pl both_fail show ?thesis by (auto simp: Let_def)
  qed
qed

lemma trace_ok_Nil: "trace_ok lib False []"
  by (simp add: trace_ok_def)

lemma trace_ok_get_last: "req_method rq = ''GET'' \<Longrightarrow> trace_ok lib (out = Failure) [(rq, out)]"
  by (simp add: trace_ok_def)

lemma trace_ok_post_last:
  "m \<noteq> [] \<Longrightarrow>
   req_data rq = Some (chat_payload lib m) \<or> req_data rq = Some (legacy_payload lib m) \<Longrightarrow>
   trace_ok lib (out = Failure) [(rq, out)]"
  by (auto simp: trace_ok_def)

lemma trace_ok_get_Cons:
  "req_method rq = ''GET'' \<Longrightarrow> out \<noteq> Failure \<Longrightarrow> trace_ok lib f trs \<Longrightarrow>
   trace_ok lib f ((rq, out) # trs)"
  by (auto simp: trace_ok_def)

lemma trace_ok_post_Cons:
  "m \<noteq> [] \<Longrightarrow>
   req_data rq = Some (chat_payload lib m) \<or> req_data rq = Some (legacy_payload lib m) \<Longrightarrow>
   out \<noteq> Failure \<Longrightarrow> trace_ok lib f trs \<Longrightarrow> trace_ok lib f ((rq, out) # trs)"
  by (auto simp: trace_ok_def)

lemma probe_loop_trace:
  "probe_loop lib (logged net) k h t bases ns (w, tr) = (r, (w', tr')) \<Longrightarrow>
     \<exists>trs. tr' = tr @ trs \<and> trace_ok lib (r = Inl ConnectionError) trs"
proof (induction bases arbitrary: ns w tr)
  case Nil
  then show ?case by (auto simp: trace_ok_Nil)
next
  case (Cons b rest)
  from Cons.prems show ?case
  proof (cases rule: probe_loop_Cons_cases)
    case (models_err e s1)
    from probe_models_logged[OF models_err(1)] obtain w1 rq1 o1 where
      s1: "s1 = (w1, tr @ [(rq1, o1)])" "e = ConnectionError \<longleftrightarrow> o1 = Failure"
          "req_method rq1 = ''GET''" by auto
    from models_err(2) s1 have "tr' = tr @ [(rq1, o1)]"
      "(r = Inl ConnectionError) = (o1 = Failure)" by auto
    with trace_ok_get_last[OF s1(3), of lib o1] show ?thesis by auto
  next
    case (skip ids n1 s1)
    from probe_models_logged[OF skip(1)] obtain w1 rq1 o1 where
      s1: "s1 = (w1, tr @ [(rq1, o1)])" "o1 \<noteq> Failure" "req_method rq1 = ''GET''" by auto
    from Cons.IH[OF skip(3)[symmetric, unfolded s1]] obtain trs where
      "tr' = (tr @ [(rq1, o1)]) @ trs" "trace_ok lib (r = Inl ConnectionError) trs" by blast
    with s1 show ?thesis by (auto intro: trace_ok_get_Cons)
  next
    case (chat_err xs n1 s1 m e s2)
    from probe_models_logged[OF chat_err(1)] obtain w1 rq1 o1 where
      s1: "s1 = (w1, tr @ [(rq1, o1)])" "o1 \<noteq> Failure" "req_method rq1 = ''GET''" by auto
    from probe_chat_logged[OF chat_err(4)[unfolded s1]] obtain w2 rq2 o2 where
      s2: "s2 = (w2, (tr @ [(rq1, o1)]) @ [(rq2, o2)])" "e = ConnectionError \<longleftrightarrow> o2 = Failure"
          "req_data rq2 = Some (chat_payload lib m)" by auto
    from chat_err(5) s2 have t: "tr' = tr @ [(rq1, o1), (rq2, o2)]"
      "(r = Inl ConnectionError) = (o2 = Failure)" by auto
    have "trace_ok lib (o2 = Failure) [(rq1, o1), (rq2, o2)]"
      using s1 s2 chat_err(3) by (intro trace_ok_get_Cons trace_ok_post_last[of m]) auto
    with t show ?thesis by auto
  next
    case (chat_ok xs n1 s1 m n2 s2)
    from probe_models_logged[OF chat_ok(1)] obtain w1 rq1 o1 where
      s1: "s1 = (w1, tr @ [(rq1, o1)])" "o1 \<noteq> Failure" "req_method rq1 = ''GET''" by auto
    from probe_chat_logged[OF chat_ok(4)[unfolded s1]] obtain w2 rq2 o2 where
      s2: "s2 = (w2, (tr @ [(rq1, o1)]) @ [(rq2, o2)])" "o2 \<noteq> Failure"
          "req_data rq2 = Some (chat_payload lib m)" by auto
    from chat_ok(5) s2 have "tr' = tr @ [(rq1, o1), (rq2, o2)]" "r \<noteq> Inl ConnectionError" by auto
    moreover have "trace_ok lib False [(rq1, o1), (rq2, o2)]"
      using s1 s2 chat_ok(3) by (intro trace_ok_get_Cons trace_ok_post_Cons[of m] trace_ok_Nil) auto
    ultimately show ?thesis by auto
  next
    case (legacy_err xs n1 s1 m n2 s2 e s3)
    from probe_models_logged[OF legacy_err(1)] obtain w1 rq1 o1 where
      s1: "s1 = (w1, tr @ [(rq1, o1)])" "o1 \<noteq> Failure" "req_method rq1 = ''GET''" by auto
    from probe_chat_logged[OF legacy_err(4)[unfolded s1]] obtain w2 rq2 o2 where
      s2: "s2 = (w2, (tr @ [(rq1, o1)]) @ [(rq2, o2)])" "o2 \<noteq> Failure"
          "req_data rq2 = Some (chat_payload lib m)" by auto
    from probe_legacy_logged[OF legacy_err(5)[unfolded s2]] obtain w3 rq3 o3 where
      s3: "s3 = (w3, ((tr @ [(rq1, o1)]) @ [(rq2, o2)]) @ [(rq3, o3)])"
          "e = ConnectionError \<longleftrightarrow> o3 = Failure"
          "req_data rq3 = Some (legacy_payload lib m)" by auto
    from legacy_err(6) s3 have t: "tr' = tr @ [(rq1, o1), (rq2, o2), (rq3, o3)]"
      "(r = Inl ConnectionError) = (o3 = Failure)" by auto
    have "trace_ok lib (o3 = Failure) [(rq1, o1), (rq2, o2), (rq3, o3)]"
      using s1 s2 s3 legacy_err(3)
      by (intro trace_ok_get_Cons trace_ok_post_Cons[of m] trace_ok_post_last[of m]) auto
    with t show ?thesis by auto
  next
    case (legacy_ok xs n1 s1 m n2 s2 n3 s3)
    from probe_models_logged[OF legacy_ok(1)] obtain w1 rq1 o1 where
      s1: "s1 = (w1, tr @ [(rq1, o1)])" "o1 \<noteq> Failure" "req_method rq1 = ''GET''" by auto
    from probe_chat_logged[OF legacy_ok(4)[unfolded s1]] obtain w2 rq2 o2 where
      s2: "s2 = (w2, (tr @ [(rq1, o1)]) @ [(rq2, o2)])" "o2 \<noteq> Failure"
          "req_data rq2 = Some (chat_payload lib m)" by auto
    from probe_legacy_logged[OF legacy_ok(5)[unfolded s2]] obtain w3 rq3 o3 where
      s3: "s3 = (w3, ((tr @ [(rq1, o1)]) @ [(rq2, o2)]) @ [(rq3, o3)])" "o3 \<noteq> Failure"
          "req_data rq3 = Some (legacy_payload lib m)" by auto
    from legacy_ok(6) s3 have "tr' = tr @ [(rq1, o1), (rq2, o2), (rq3, o3)]"
      "r \<noteq> Inl ConnectionError" by auto
    moreover have "trace_ok lib False [(rq1, o1), (rq2, o2), (rq3, o3)]"
      using s1 s2 s3 legacy_ok(3)
      by (intro trace_ok_get_Cons trace_ok_post_Cons[of m] trace_ok_Nil) auto
    ultimately show ?thesis by auto
  next
    case (both_fail xs n1 s1 m n2 s2 n3 s3)
    from probe_models_logged[OF both_fail(1)] obtain w1 rq1 o1 where
      s1: "s1 = (w1, tr @ [(rq1, o1)])" "o1 \<noteq> Failure" "req_method rq1 = ''GET''" by auto
    from probe_chat_logged[OF both_fail(4)[unfolded s1]] obtain w2 rq2 o2 where
      s2: "s2 = (w2, (tr @ [(rq1, o1)]) @ [(rq2, o2)])" "o2 \<noteq> Failure"
          "req_data rq2 = Some (chat_payload lib m)" by auto
    from probe_legacy_logged[OF both_fail(5)[unfolded s2]] obtain w3 rq3 o3 where
      s3: "s3 = (w3, ((tr @ [(rq1, o1)]) @ [(rq2, o2)]) @ [(rq3, o3)])" "o3 \<noteq> Failure"
          "req_data rq3 = Some (legacy_payload lib m)" by auto
    from Cons.IH[OF both_fail(6)[symmetric, unfolded s3]] obtain trs where
      t: "tr' = (((tr @ [(rq1, o1)]) @ [(rq2, o2)]) @ [(rq3, o3)]) @ trs"
         "trace_ok lib (r = Inl ConnectionError) trs" by blast
    have "trace_ok lib (r = Inl ConnectionError) ((rq1, o1) # (rq2, o2) # (rq3, o3) # trs)"
      using s1 s2 s3 both_fail(3) t(2)
      by (intro trace_ok_get_Cons trace_ok_post_Cons[of m]) auto
    with t(1) show ?thesis by auto
  qed
qed

subsection \<open>Results of the loop\<close>

lemma scan_hint_mem: "scan_hint lib hint ids = Some m \<Longrightarrow> m \<in> set ids"
  by (induction ids) (auto split: if_splits)

lemma pick_model_mem: "pick_model lib ids hint = Some m \<Longrightarrow> m \<in> set ids"
  by (cases ids) (auto simp: pick_model_def split: if_splits option.splits dest: scan_hint_mem)

lemma probe_models_Some:
  assumes "probe_models lib net b k t w = (Inr (Some ids, n), w1)"
  shows "\<exists>resp payload.
           http_request lib net ''GET'' (join b ''/models'') (auth_headers k) None t w = (Inr resp, w1) \<and>
           status resp = 200 \<and> try_json lib resp = Inr payload \<and>
           ids = extract_model_ids lib payload"
  using assms
  by (auto simp: probe_models_def Let_def split: prod.splits sum.splits if_splits)

lemma probe_loop_result:
  "probe_loop lib net k h t bases ns w = (Inr (Some res, ns'), w') \<Longrightarrow>
     api_base res \<in> set bases \<and>
     (\<exists>w1 w2 resp.
        http_request lib net ''GET'' (join (api_base res) ''/models'') (auth_headers k) None t w1
          = (Inr resp, w2) \<and>
        status resp = 200 \<and>
        (\<exists>payload. try_json lib resp = Inr payload \<and>
           model res \<in> set (extract_model_ids lib payload) \<and>
           pick_model lib (extract_model_ids lib payload) h = Some (model res)))"
proof (induction bases arbitrary: ns w)
  case Nil
  then show ?case by simp
next
  case (Cons b rest)
  from Cons.prems show ?case
  proof (cases rule: probe_loop_Cons_cases)
    case (skip ids n1 w1)
    from Cons.IH[OF skip(3)[symmetric]] show ?thesis by auto
  next
    case (chat_ok xs n1 w1 m n2 w2)
    from probe_models_Some[OF chat_ok(1)] chat_ok(2) pick_model_mem[OF chat_ok(2)] chat_ok(5)
    show ?thesis by auto
  next
    case (legacy_ok xs n1 w1 m n2 w2 n3 w3)
    from probe_models_Some[OF legacy_ok(1)] legacy_ok(2) pick_model_mem[OF legacy_ok(2)] legacy_ok(6)
    show ?thesis by auto
  next
    case (both_fail xs n1 w1 m n2 w2 n3 w3)
    from Cons.IH[OF both_fail(6)[symmetric]] show ?thesis by auto
  qed auto
qed


lemma probe_loop_all_fail:
  "models_all_fail lib net k t bases w \<Longrightarrow>
   probe_loop lib (logged net) k h t bases ns (w, tr) = (r, (w', tr')) \<Longrightarrow>
     \<exists>ms trs. r = Inr (None, ns @ ms) \<and> length ms = length bases \<and> tr' = tr @ trs \<and>
       map (\<lambda>e. (req_method (fst e), req_url (fst e))) trs = map (\<lambda>b. (''GET'', join b ''/models'')) bases"
proof (induction bases arbitrary: ns w tr)
  case Nil
  then show ?case by auto
next
  case (Cons b rest)
  from Cons.prems(1) obtain ids n1 w1 where
    pm: "probe_models lib net b k t w = (Inr (ids, n1), w1)" and ids: "ids = None \<or> ids = Some []"
    and rest: "models_all_fail lib net k t rest w1"
    by (auto split: prod.splits sum.splits)
  from Cons.prems(2) show ?case
  proof (cases rule: probe_loop_Cons_cases)
    case (models_err e s1)
    from probe_models_logged[OF models_err(1)] pm show ?thesis by auto
  next
    case (skip ids' n1' s1)
    from probe_models_logged[OF skip(1)] pm obtain rq1 o1 where
      s1: "s1 = (w1, tr @ [(rq1, o1)])" "req_method rq1 = ''GET''" "req_url rq1 = join b ''/models''"
      and n: "n1' = n1" by auto
    from Cons.IH[OF rest skip(3)[symmetric, unfolded s1]] obtain ms trs where
      "r = Inr (None, (ns @ [n1']) @ ms)" "length ms = length rest" "tr' = (tr @ [(rq1, o1)]) @ trs"
      "map (\<lambda>e. (req_method (fst e), req_url (fst e))) trs = map (\<lambda>b. (''GET'', join b ''/models'')) rest"
      by blast
    with s1 show ?thesis
      by (intro exI[of _ "n1' # ms"] exI[of _ "(rq1, o1) # trs"]) simp
  next
    case (chat_err xs n1' s1 m e s2)
    from probe_models_logged[OF chat_err(1)] pm ids chat_err(2) show ?thesis
      by (auto simp: pick_model_def)
  next
    case (chat_ok xs n1' s1 m n2 s2)
    from probe_models_logged[OF chat_ok(1)] pm ids chat_ok(2) show ?thesis
      by (auto simp: pick_model_def)
  next
    case (legacy_err xs n1' s1 m n2 s2 e s3)
    from probe_models_logged[OF legacy_err(1)] pm ids legacy_err(2) show ?thesis
      by (auto simp: pick_model_def)
  next
    case (legacy_ok xs n1' s1 m n2 s2 n3 s3)
    from probe_models_logged[OF legacy_ok(1)] pm ids legacy_ok(2) show ?thesis
      by (auto simp: pick_model_def)
  next
    case (both_fail xs n1' s1 m n2 s2 n3 s3)
    from probe_models_logged[OF both_fail(1)] pm ids both_fail(2) show ?thesis
      by (auto simp: pick_model_def)
  qed
qed

lemma models_unusable_all_fail:
  "models_unusable lib net k t bases w \<Longrightarrow> models_all_fail lib net k t bases w"
  by (induction bases arbitrary: w)
    (auto simp: probe_models_def Let_def split: prod.splits sum.splits)





lemma probe_loop_skip:
  "probe_models lib net b k t w = (Inr (ids, n1), w1) \<Longrightarrow>
   ids = None \<or> (\<exists>xs. ids = Some xs \<and> (pick_model lib xs h = None \<or> pick_model lib xs h = Some [])) \<Longrightarrow>
   probe_loop lib net k h t (b # rest) ns w = probe_loop lib net k h t rest (ns @ [n1]) w1"
  by (auto simp: Let_def)

subsection \<open>Runs against the concrete servers\<close>

lemma test_lib_fields:
  "json_loads test_lib = test_loads" "json_dumps test_lib = dumps" "py_repr test_lib = repr"
  "str_lower test_lib = ascii_lower"
  by (simp_all add: test_lib_def)

lemmas run_simps =
  best_effort_probe_def candidate_api_bases_def str_int_vals probe_models_def probe_chat_def
  probe_legacy_completions_def http_request_def test_server_def join_def auth_headers_def
  try_json_def test_lib_fields test_loads_def models_payload_def extract_model_ids_def
  pick_model_def ascii_lower_def attempt_note_def logged_def sublist_code Let_def

lemma test_bases:
  "candidate_api_bases ''127.0.0.1'' 8080 =
     [''http://127.0.0.1:8080/api'', ''http://127.0.0.1:8080/v1'',
      ''http://127.0.0.1:8080/api/openai/v1'', ''http://127.0.0.1:8080/api/openai/v1'',
      ''http://127.0.0.1:8080'']"
  by (simp add: candidate_api_bases_def str_int_vals)

lemma run_chat:
  "best_effort_probe test_lib (test_server ''http://127.0.0.1:8080'' routes_chat) ''127.0.0.1'' 8080
     ''sk-test'' ''llama3'' 0 () =
   (Inr (Some \<lparr>api_base = ''http://127.0.0.1:8080/api'', model = ''llama3:latest'',
               use_legacy_completions_endpoint = False\<rparr>,
         [''http://127.0.0.1:8080/api/models -> 200'',
          ''http://127.0.0.1:8080/api/chat/completions -> 200'']), ())"
  by (simp add: run_simps routes_chat_def)


lemma run_flaky:
  "best_effort_probe test_lib (logged flaky_net) ''127.0.0.1'' 8080 ''sk-test'' ''llama3'' 0 ((), []) =
   (Inl ConnectionError,
    ((), [(\<lparr>req_method = ''GET'', req_url = ''http://127.0.0.1:8080/api/models'',
            req_headers = auth_headers ''sk-test'', req_data = None, req_timeout = 0\<rparr>, Failure)]))"
  by (simp add: best_effort_probe_def test_bases probe_models_def http_request_def join_def
      logged_def flaky_net_def)

lemma run_flaky_rest:
  "probe_loop test_lib flaky_net ''sk-test'' ''llama3'' 0
     (tl (candidate_api_bases ''127.0.0.1'' 8080)) [] () =
   (Inr (Some \<lparr>api_base = ''http://127.0.0.1:8080/v1'', model = ''llama3:latest'',
               use_legacy_completions_endpoint = False\<rparr>,
         [''http://127.0.0.1:8080/v1/models -> 200'',
          ''http://127.0.0.1:8080/v1/chat/completions -> 200'']), ())"
  by (simp add: run_simps flaky_net_def)

lemma run_legacy_logged:
  "best_effort_probe test_lib (logged (test_server ''http://127.0.0.1:8080'' routes_legacy))
     ''127.0.0.1'' 8080 ''sk-test'' ''llama3'' 0 ((), []) =
   (Inr (Some \<lparr>api_base = ''http://127.0.0.1:8080/api'', model = ''llama3:latest'',
               use_legacy_completions_endpoint = True\<rparr>,
         [''http://127.0.0.1:8080/api/models -> 200'',
          ''http://127.0.0.1:8080/api/chat/completions -> 404'',
          ''http://127.0.0.1:8080/api/completions -> 200'']),
    ((), [(\<lparr>req_method = ''GET'', req_url = ''http://127.0.0.1:8080/api/models'',
            req_headers = auth_headers ''sk-test'', req_data = None, req_timeout = 0\<rparr>,
           Returned 200 json_ct ''{\"data\": [{\"id\": \"llama3:latest\"}]}''),
          (\<lparr>req_method = ''POST'', req_url = ''http://127.0.0.1:8080/api/chat/completions'',
            req_headers = auth_headers ''sk-test'',
            req_data = Some (chat_payload test_lib ''llama3:latest''), req_timeout = 0\<rparr>,
           HTTPError 404 json_ct ''{\"error\": \"nope\"}''),
          (\<lparr>req_method = ''POST'', req_url = ''http://127.0.0.1:8080/api/completions'',
            req_headers = auth_headers ''sk-test'',
            req_data = Some (legacy_payload test_lib ''llama3:latest''), req_timeout = 0\<rparr>,
           Returned 200 json_ct ''{\"choices\": [{\"text\": \"pong\"}]}'')]))"
  by (simp add: run_simps routes_legacy_def)




lemma models_blank:
  "probe_models test_lib (test_server ''http://127.0.0.1:8080'' routes_blank)
     ''http://127.0.0.1:8080/api'' ''sk-test'' 0 ()
   = (Inr (Some [[]], ''http://127.0.0.1:8080/api/models -> 200''), ())"
  by (simp add: run_simps routes_blank_def)

lemma models_none:
  "probe_models test_lib (test_server ''http://127.0.0.1:8080'' [])
     ''http://127.0.0.1:8080/api'' ''sk-test'' 0 ()
   = (Inr (None, ''http://127.0.0.1:8080/api/models -> 404''), ())"
  by (simp add: run_simps)


lemma pick_blank: "pick_model test_lib [[]] ''llama3'' = Some []"
  by (simp add: run_simps)





lemma unusable_404:
  "models_unusable test_lib (test_server ''http://127.0.0.1:8080'' []) ''sk-test'' 0
     (candidate_api_bases ''127.0.0.1'' 8080) ()"
  by (simp add: test_bases run_simps)

lemma long_number_facts:
  "long_number \<noteq> []" "test_loads long_number = Raised ValueError"
  by (simp_all add: long_number_def test_loads_def)

lemma run_number:
  "best_effort_probe test_lib (logged number_server) ''127.0.0.1'' 8080 ''sk-test'' ''llama3'' 0
     ((), [])
   = (Inl (LoadsError ValueError),
      ((), [(\<lparr>req_method = ''GET'', req_url = ''http://127.0.0.1:8080/api/models'',
              req_headers = auth_headers ''sk-test'', req_data = None, req_timeout = 0\<rparr>,
             HTTPError 404 json_ct long_number)]))"
  by (simp add: best_effort_probe_def test_bases probe_models_def http_request_def join_def
      logged_def number_server_def try_json_def test_lib_fields long_number_facts)

subsection \<open>Lines of the rendered text\<close>

lemma split_lines_not_Nil [simp]: "split_lines s \<noteq> []"
  by (induction s) (auto split: list.splits)

lemma split_lines_append_newline:
  "split_lines (x @ CHR 0x0A # y) = split_lines x @ split_lines y"
  by (induction x) (auto split: list.splits)

lemma split_lines_single: "CHR 0x0A \<notin> set s \<Longrightarrow> split_lines s = [s]"
  by (induction s) auto

lemma split_lines_join:
  "ls \<noteq> [] \<Longrightarrow> split_lines (str_join [CHR 0x0A] ls) = concat (map split_lines ls)"
proof (induction ls)
  case Nil
  then show ?case by simp
next
  case (Cons l ls)
  show ?case
  proof (cases ls)
    case Nil
    then show ?thesis by simp
  next
    case (Cons l' ls')
    with Cons.IH show ?thesis by (simp add: split_lines_append_newline)
  qed
qed

lemma newline_replace_char:
  "CHR 0x0A \<notin> set s \<Longrightarrow> CHR 0x0A \<notin> set new \<Longrightarrow> CHR 0x0A \<notin> set (replace_char old new s)"
  by (induction s) (auto simp: replace_char_def)

lemma newline_yaml_quote: "CHR 0x0A \<notin> set k \<Longrightarrow> CHR 0x0A \<notin> set (yaml_quote k)"
  by (simp add: yaml_quote_def newline_replace_char)

lemma render_lines_split:
  "split_lines (render_yaml result api_key title model_name) =
     concat (map split_lines (render_lines result api_key title model_name))"
  unfolding render_yaml_def by (rule split_lines_join) (simp add: render_lines_def)

subsection \<open>Extraction keeps objects only\<close>

lemma extract_model_ids_objects_only:
  "length (extract_model_ids lib (PList xs)) = length (filter is_dict xs)"
  "map_of kvs ''data'' = Some (PList xs) \<Longrightarrow>
     length (extract_model_ids lib (PDict kvs))
       = length (filter (\<lambda>x. is_dict x \<and> py_in ''id'' x) xs)"
  "map_of kvs ''data'' = None \<Longrightarrow> map_of kvs ''models'' = Some (PList xs) \<Longrightarrow>
     length (extract_model_ids lib (PDict kvs)) = length (filter is_dict xs)"
  by (simp_all add: extract_model_ids_def)

section \<open>Discovery\<close>

subsection \<open>Connection-level failures\<close>

text \<open>
  As stated, claim C1 fails: nothing in the prober catches an error that is not an
  \<open>HTTPError\<close>. On the network below the request to the first base times out; the run
  ends there with the error, after that single request, although the loop over the
  remaining bases would have found a working endpoint at \<open>/v1\<close>.
\<close>

theorem connection_failure_counterexample:
  "best_effort_probe test_lib flaky_net ''127.0.0.1'' 8080 ''sk-test'' ''llama3'' 0 ()
     = (Inl ConnectionError, ()) \<and>
   best_effort_probe test_lib (logged flaky_net) ''127.0.0.1'' 8080 ''sk-test'' ''llama3'' 0 ((), [])
     = (Inl ConnectionError,
        ((), [(\<lparr>req_method = ''GET'', req_url = ''http://127.0.0.1:8080/api/models'',
                req_headers = auth_headers ''sk-test'', req_data = None, req_timeout = 0\<rparr>,
               Failure)])) \<and>
   probe_loop test_lib flaky_net ''sk-test'' ''llama3'' 0
     (tl (candidate_api_bases ''127.0.0.1'' 8080)) [] ()
     = (Inr (Some \<lparr>api_base = ''http://127.0.0.1:8080/v1'', model = ''llama3:latest'',
                  use_legacy_completions_endpoint = False\<rparr>,
             [''http://127.0.0.1:8080/v1/models -> 200'',
              ''http://127.0.0.1:8080/v1/chat/completions -> 200'']), ())"
proof -
  have "probe_loop test_lib flaky_net ''sk-test'' ''llama3'' 0
          (candidate_api_bases ''127.0.0.1'' 8080) [] () = (Inl ConnectionError, ())"
    by (rule probe_loop_logged) (use run_flaky in \<open>simp add: best_effort_probe_def\<close>)
  then show ?thesis
    using run_flaky run_flaky_rest by (simp add: best_effort_probe_def)
qed

text \<open>
  Claim C1, amended. Every request of a run that fails at the connection level is the
  last request the run issues, and the run raises the connection error: no further probe
  or candidate is tried and no result or notes are returned. The observed run and the
  plain run have the same outcome.
\<close>

theorem connection_failure_fatal:
  assumes "best_effort_probe lib (logged net) host port api_key hint t (w, []) = (r, (w', tr))"
  shows "best_effort_probe lib net host port api_key hint t w = (r, w') \<and>
         (\<forall>i<length tr. snd (tr ! i) = Failure \<longrightarrow>
            Suc i = length tr \<and> r = Inl ConnectionError)"
proof -
  from assms have run:
    "probe_loop lib (logged net) api_key hint t (candidate_api_bases host port) [] (w, [])
       = (r, (w', tr))"
    by (simp add: best_effort_probe_def)
  from probe_loop_trace[OF run] have ok: "trace_ok lib (r = Inl ConnectionError) tr" by simp
  have "Suc i = length tr \<and> r = Inl ConnectionError"
    if i: "i < length tr" and f: "snd (tr ! i) = Failure" for i
  proof -
    have "\<not> Suc i < length tr"
    proof
      assume "Suc i < length tr"
      then have "butlast tr ! i \<in> set (butlast tr)" by simp
      moreover from \<open>Suc i < length tr\<close> have "butlast tr ! i = tr ! i"
        by (simp add: nth_butlast)
      ultimately show False using ok f by (auto simp: trace_ok_def)
    qed
    with i have last: "Suc i = length tr" by simp
    then have ne: "tr \<noteq> []" by auto
    from last_conv_nth[OF ne] last have "last tr = tr ! i"
      by (metis diff_Suc_1)
    note ne this
    with ok f last show ?thesis by (simp add: trace_ok_def)
  qed
  then show ?thesis
    using probe_loop_logged[OF run] by (simp add: best_effort_probe_def)
qed

theorem connection_failure_fatal_witness:
  "best_effort_probe test_lib (logged flaky_net) ''127.0.0.1'' 8080 ''sk-test'' ''llama3'' 0 ((), [])
     = (Inl ConnectionError,
        ((), [(\<lparr>req_method = ''GET'', req_url = ''http://127.0.0.1:8080/api/models'',
                req_headers = auth_headers ''sk-test'', req_data = None, req_timeout = 0\<rparr>,
               Failure)])) \<and>
   best_effort_probe test_lib flaky_net ''127.0.0.1'' 8080 ''sk-test'' ''llama3'' 0 ()
     = (Inl ConnectionError, ())"
  using connection_failure_fatal[OF run_flaky] run_flaky by simp

subsection \<open>First success wins\<close>




subsection \<open>No usable model list\<close>

text \<open>
  As stated, the second half of claim C3 fails: the body of a \<open>/models\<close> response is
  decoded before its status is tested, so an error of \<open>json.loads\<close> that is not a
  \<open>JSONDecodeError\<close> leaves discovery even when the status is not 200. The server below
  answers every request with status 404 and an integer literal of 5000 digits; the run
  raises \<open>ValueError\<close> after its first request.
\<close>

theorem discover_no_models_counterexample:
  "long_number = replicate 5000 (CHR ''1'') \<and>
   json_loads test_lib long_number = Raised ValueError \<and>
   number_server ()
     \<lparr>req_method = ''GET'', req_url = ''http://127.0.0.1:8080/v1/models'',
      req_headers = auth_headers ''sk-test'', req_data = None, req_timeout = 0\<rparr>
     = (HTTPError 404 json_ct long_number, ()) \<and>
   number_server ()
     \<lparr>req_method = ''GET'', req_url = ''http://127.0.0.1:8080/api/openai/v1/models'',
      req_headers = auth_headers ''sk-test'', req_data = None, req_timeout = 0\<rparr>
     = (HTTPError 404 json_ct long_number, ()) \<and>
   number_server ()
     \<lparr>req_method = ''GET'', req_url = ''http://127.0.0.1:8080/models'',
      req_headers = auth_headers ''sk-test'', req_data = None, req_timeout = 0\<rparr>
     = (HTTPError 404 json_ct long_number, ()) \<and>
   best_effort_probe test_lib (logged number_server) ''127.0.0.1'' 8080 ''sk-test'' ''llama3'' 0
     ((), [])
     = (Inl (LoadsError ValueError),
        ((), [(\<lparr>req_method = ''GET'', req_url = ''http://127.0.0.1:8080/api/models'',
                req_headers = auth_headers ''sk-test'', req_data = None, req_timeout = 0\<rparr>,
               HTTPError 404 json_ct long_number)]))"
  using run_number long_number_facts
  by (simp add: long_number_def number_server_def test_lib_fields)

text \<open>
  Claim C3, amended. The candidate bases are the five URLs \<open>/api\<close>, \<open>/v1\<close>,
  \<open>/api/openai/v1\<close>, \<open>/api/openai/v1\<close> again and the bare root, in this order. When every
  candidate's \<open>/models\<close> request is answered with a status other than 200 or with a body
  that yields no ids, and decoding the body of each of these responses raises no error,
  discovery returns nothing with five notes, and the requests it issued are the five
  \<open>/models\<close> calls: no completion probe is attempted.
\<close>

theorem discover_no_models:
  "candidate_api_bases host port =
     [''http://'' @ host @ '':'' @ str_int port @ ''/api'',
      ''http://'' @ host @ '':'' @ str_int port @ ''/v1'',
      ''http://'' @ host @ '':'' @ str_int port @ ''/api/openai/v1'',
      ''http://'' @ host @ '':'' @ str_int port @ ''/api/openai/v1'',
      ''http://'' @ host @ '':'' @ str_int port] \<and>
   (models_unusable lib net api_key t (candidate_api_bases host port) w \<longrightarrow>
      (\<exists>ns w' tr.
         best_effort_probe lib (logged net) host port api_key hint t (w, []) = (Inr (None, ns), (w', tr)) \<and>
         best_effort_probe lib net host port api_key hint t w = (Inr (None, ns), w') \<and>
         length ns = 5 \<and>
         map (\<lambda>e. (req_method (fst e), req_url (fst e))) tr =
           map (\<lambda>b. (''GET'', join b ''/models'')) (candidate_api_bases host port)))"
proof (intro conjI impI)
  show "candidate_api_bases host port =
     [''http://'' @ host @ '':'' @ str_int port @ ''/api'',
      ''http://'' @ host @ '':'' @ str_int port @ ''/v1'',
      ''http://'' @ host @ '':'' @ str_int port @ ''/api/openai/v1'',
      ''http://'' @ host @ '':'' @ str_int port @ ''/api/openai/v1'',
      ''http://'' @ host @ '':'' @ str_int port]"
    by (simp add: candidate_api_bases_def)
next
  assume "models_unusable lib net api_key t (candidate_api_bases host port) w"
  then have fail: "models_all_fail lib net api_key t (candidate_api_bases host port) w"
    by (rule models_unusable_all_fail)
  obtain r w' tr where run:
    "probe_loop lib (logged net) api_key hint t (candidate_api_bases host port) [] (w, []) = (r, (w', tr))"
    by (metis surj_pair)
  from probe_loop_all_fail[OF fail run] obtain ms where
    ms: "r = Inr (None, ms)" "length ms = length (candidate_api_bases host port)"
      "map (\<lambda>e. (req_method (fst e), req_url (fst e))) tr =
         map (\<lambda>b. (''GET'', join b ''/models'')) (candidate_api_bases host port)"
    by auto
  have "length (candidate_api_bases host port) = 5" by (simp add: candidate_api_bases_def)
  with ms run probe_loop_logged[OF run]
  show "\<exists>ns w' tr.
         best_effort_probe lib (logged net) host port api_key hint t (w, []) = (Inr (None, ns), (w', tr)) \<and>
         best_effort_probe lib net host port api_key hint t w = (Inr (None, ns), w') \<and>
         length ns = 5 \<and>
         map (\<lambda>e. (req_method (fst e), req_url (fst e))) tr =
           map (\<lambda>b. (''GET'', join b ''/models'')) (candidate_api_bases host port)"
    by (auto simp: best_effort_probe_def)
qed

theorem discover_no_models_witness:
  "models_unusable test_lib (test_server ''http://127.0.0.1:8080'' []) ''sk-test'' 0
     (candidate_api_bases ''127.0.0.1'' 8080) () \<and>
   (\<exists>ns w' tr.
      best_effort_probe test_lib (logged (test_server ''http://127.0.0.1:8080'' [])) ''127.0.0.1''
        8080 ''sk-test'' ''llama3'' 0 ((), []) = (Inr (None, ns), (w', tr)) \<and>
      best_effort_probe test_lib (test_server ''http://127.0.0.1:8080'' []) ''127.0.0.1''
        8080 ''sk-test'' ''llama3'' 0 () = (Inr (None, ns), w') \<and>
      length ns = 5 \<and>
      map (\<lambda>e. (req_method (fst e), req_url (fst e))) tr =
        [(''GET'', ''http://127.0.0.1:8080/api/models''),
         (''GET'', ''http://127.0.0.1:8080/v1/models''),
         (''GET'', ''http://127.0.0.1:8080/api/openai/v1/models''),
         (''GET'', ''http://127.0.0.1:8080/api/openai/v1/models''),
         (''GET'', ''http://127.0.0.1:8080/models'')])"
proof -
  have m: "map (\<lambda>b. (''GET'', join b ''/models'')) (candidate_api_bases ''127.0.0.1'' 8080) =
        [(''GET'', ''http://127.0.0.1:8080/api/models''),
         (''GET'', ''http://127.0.0.1:8080/v1/models''),
         (''GET'', ''http://127.0.0.1:8080/api/openai/v1/models''),
         (''GET'', ''http://127.0.0.1:8080/api/openai/v1/models''),
         (''GET'', ''http://127.0.0.1:8080/models'')]"
    by (simp add: test_bases join_def)
  from unusable_404
    discover_no_models[THEN conjunct2, rule_format, OF unusable_404, of "''llama3''", unfolded m]
  show ?thesis by (rule conjI)
qed

section \<open>Model-id extraction\<close>

text \<open>
  Claim C4. Extraction skips every element of the matched list that is not an object or
  lacks the identifier key. The \<open>data\<close> shape does so; in the \<open>models\<close> and bare-list
  shapes an object with neither \<open>id\<close> nor \<open>name\<close> is kept and contributes the text
  \<open>None\<close>, the rendering of the missing value.
\<close>

theorem extract_model_ids_keyless:
  "extract_model_ids lib (PDict [(''models'', PList [PDict [(''size'', PInt 7)]])]) = [''None''] \<and>
   extract_model_ids lib (PList [PDict [(''size'', PInt 7)]]) = [''None''] \<and>
   extract_model_ids lib (PDict [(''data'', PList [PDict [(''size'', PInt 7)]])]) = []"
  by (simp add: extract_model_ids_def py_or_def)

section \<open>JSON decoding\<close>

text \<open>
  As stated, claim C5 fails: decoding catches \<open>JSONDecodeError\<close> only. On an integer
  literal of 5000 digits, a valid JSON text, \<open>json.loads\<close> raises \<open>ValueError\<close> and so
  does decoding; on the text \<open>NaN\<close>, which is not valid JSON, \<open>json.loads\<close> returns the
  not-a-number float and decoding returns it.
\<close>

theorem try_json_counterexample:
  "long_number = replicate 5000 (CHR ''1'') \<and>
   json_loads test_lib long_number = Raised ValueError \<and>
   try_json test_lib \<lparr>status = 200, headers = Map.empty, body = long_number\<rparr>
     = Inl (LoadsError ValueError) \<and>
   json_loads test_lib ''NaN'' = Parsed (PFloat nan) \<and>
   try_json test_lib \<lparr>status = 200, headers = Map.empty, body = ''NaN''\<rparr> = Inr (PFloat nan)"
proof -
  have "json_loads test_lib ''NaN'' = Parsed (PFloat nan)"
    by (simp add: test_lib_fields test_loads_def)
  with long_number_facts show ?thesis
    by (simp add: try_json_def test_lib_fields long_number_def)
qed

text \<open>
  Claim C5, amended. For every response body: decoding returns nothing when the body is
  empty; for a non-empty body it returns nothing, raising no error, when \<open>json.loads\<close>
  rejects the body with a \<open>JSONDecodeError\<close>, the parsed value, whether an object, an
  array or a scalar, when \<open>json.loads\<close> accepts the body, and it raises the error when
  \<open>json.loads\<close> raises one of another class. So decoding returns nothing exactly for an
  empty body, a rejected body and a body whose value is \<open>null\<close>, and raises exactly when
  \<open>json.loads\<close> raises such an error on a non-empty body.
\<close>

theorem try_json_decode:
  "(body resp = [] \<longrightarrow> try_json lib resp = Inr PNone) \<and>
   (body resp \<noteq> [] \<longrightarrow>
      (json_loads lib (body resp) = JSONDecodeError \<longrightarrow> try_json lib resp = Inr PNone) \<and>
      (\<forall>v. json_loads lib (body resp) = Parsed v \<longrightarrow> try_json lib resp = Inr v) \<and>
      (\<forall>e. json_loads lib (body resp) = Raised e \<longrightarrow> try_json lib resp = Inl (LoadsError e))) \<and>
   (try_json lib resp = Inr PNone \<longleftrightarrow>
      body resp = [] \<or> json_loads lib (body resp) = JSONDecodeError \<or>
      json_loads lib (body resp) = Parsed PNone) \<and>
   ((\<exists>e. try_json lib resp = Inl e) \<longleftrightarrow>
      body resp \<noteq> [] \<and> (\<exists>x. json_loads lib (body resp) = Raised x))"
  by (auto simp: try_json_def split: loads_result.splits)

theorem try_json_decode_witness:
  "try_json test_lib \<lparr>status = 200, headers = Map.empty, body = []\<rparr> = Inr PNone \<and>
   json_loads test_lib ''<html>'' = JSONDecodeError \<and>
   try_json test_lib \<lparr>status = 200, headers = Map.empty, body = ''<html>''\<rparr> = Inr PNone \<and>
   json_loads test_lib ''null'' = Parsed PNone \<and>
   try_json test_lib \<lparr>status = 200, headers = Map.empty, body = ''null''\<rparr> = Inr PNone \<and>
   json_loads test_lib ''{\"error\": \"nope\"}'' = Parsed (PDict [(''error'', PStr ''nope'')]) \<and>
   try_json test_lib \<lparr>status = 404, headers = Map.empty, body = ''{\"error\": \"nope\"}''\<rparr>
     = Inr (PDict [(''error'', PStr ''nope'')]) \<and>
   json_loads test_lib long_number = Raised ValueError \<and>
   try_json test_lib \<lparr>status = 404, headers = Map.empty, body = long_number\<rparr>
     = Inl (LoadsError ValueError)"
proof -
  have l: "json_loads test_lib ''<html>'' = JSONDecodeError"
    "json_loads test_lib ''null'' = Parsed PNone"
    "json_loads test_lib ''{\"error\": \"nope\"}'' = Parsed (PDict [(''error'', PStr ''nope'')])"
    by (simp_all add: test_lib_fields test_loads_def)
  have n: "json_loads test_lib long_number = Raised ValueError"
    by (simp add: test_lib_fields long_number_facts)
  show ?thesis
    using try_json_decode[of "\<lparr>status = 200, headers = Map.empty, body = []\<rparr>" test_lib]
      try_json_decode[of "\<lparr>status = 200, headers = Map.empty, body = ''<html>''\<rparr>" test_lib]
      try_json_decode[of "\<lparr>status = 200, headers = Map.empty, body = ''null''\<rparr>" test_lib]
      try_json_decode[of "\<lparr>status = 404, headers = Map.empty, body = ''{\"error\": \"nope\"}''\<rparr>" test_lib]
      try_json_decode[of "\<lparr>status = 404, headers = Map.empty, body = long_number\<rparr>" test_lib]
      l n long_number_facts(1)
    by simp
qed

section \<open>Model selection\<close>

text \<open>
  Claim C6. Selection returns nothing on an empty list; with a non-empty hint, the first id
  in input order whose lowercase form contains the lowercase hint as a substring; and the
  first id when no id matches the hint or the hint is empty.
\<close>

theorem pick_model_spec:
  "pick_model lib [] hint = None \<and>
   (hint \<noteq> [] \<longrightarrow>
      (\<forall>i<length ids.
         sublist (str_lower lib hint) (str_lower lib (ids ! i)) \<and>
         (\<forall>j<i. \<not> sublist (str_lower lib hint) (str_lower lib (ids ! j)))
         \<longrightarrow> pick_model lib ids hint = Some (ids ! i))) \<and>
   (ids \<noteq> [] \<and> (hint = [] \<or> (\<forall>m\<in>set ids. \<not> sublist (str_lower lib hint) (str_lower lib m)))
      \<longrightarrow> pick_model lib ids hint = Some (ids ! 0))"
proof (intro conjI impI allI)
  show "pick_model lib [] hint = None" by (simp add: pick_model_def)
next
  fix i
  assume h: "hint \<noteq> []" and i: "i < length ids"
    and m: "sublist (str_lower lib hint) (str_lower lib (ids ! i)) \<and>
         (\<forall>j<i. \<not> sublist (str_lower lib hint) (str_lower lib (ids ! j)))"
  then have "scan_hint lib hint ids = Some (ids ! i)" by (intro scan_hint_first) auto
  with h i show "pick_model lib ids hint = Some (ids ! i)"
    by (cases ids) (auto simp: pick_model_def)
next
  assume a: "ids \<noteq> [] \<and> (hint = [] \<or> (\<forall>m\<in>set ids. \<not> sublist (str_lower lib hint) (str_lower lib m)))"
  then have "hint \<noteq> [] \<Longrightarrow> scan_hint lib hint ids = None" by (auto simp: scan_hint_None)
  with a show "pick_model lib ids hint = Some (ids ! 0)"
    by (cases ids) (auto simp: pick_model_def)
qed

theorem pick_model_spec_witness:
  "pick_model test_lib [] ''llama3'' = None \<and>
   pick_model test_lib [''a'', ''llama3:8b'', ''b''] ''llama3'' = Some ''llama3:8b'' \<and>
   pick_model test_lib [''a'', ''llama3:8b'', ''b''] [] = Some ''a''"
proof -
  have m: "sublist (str_lower test_lib ''llama3'')
             (str_lower test_lib ([''a'', ''llama3:8b'', ''b''] ! Suc 0))"
    by (simp add: test_lib_def ascii_lower_def sublist_code)
  have n: "\<forall>j<Suc 0. \<not> sublist (str_lower test_lib ''llama3'')
             (str_lower test_lib ([''a'', ''llama3:8b'', ''b''] ! j))"
    by (simp add: test_lib_def ascii_lower_def sublist_code)
  have first: "pick_model test_lib [] ''llama3'' = None"
    using pick_model_spec[of test_lib "''llama3''" "[''a'', ''llama3:8b'', ''b'']"] by blast
  have hinted: "pick_model test_lib [''a'', ''llama3:8b'', ''b''] ''llama3'' = Some ''llama3:8b''"
    using pick_model_spec[of test_lib "''llama3''" "[''a'', ''llama3:8b'', ''b'']",
        THEN conjunct2, THEN conjunct1, rule_format, of "Suc 0"] m n
    by simp
  have unhinted: "pick_model test_lib [''a'', ''llama3:8b'', ''b''] [] = Some ''a''"
    using pick_model_spec[of test_lib "[]" "[''a'', ''llama3:8b'', ''b'']"] by simp
  from first hinted unhinted show ?thesis by blast
qed

section \<open>The HTTP client\<close>

text \<open>
  Claim C7. For every HTTP response received, whether \<open>urlopen\<close> returns it or raises it
  as an \<open>HTTPError\<close> (as it does for 4xx and 5xx), the request returns an
  \<open>HttpResponse\<close> with the actual status code, the header names lowercased (each value
  one the response carried under that name) and the response body.
\<close>

theorem http_request_any_status:
  assumes "net w \<lparr>req_method = m, req_url = u, req_headers = h, req_data = d, req_timeout = t\<rparr>
             = (out, w')"
    and "out = Returned st hs b \<or> out = HTTPError st hs b"
  shows "\<exists>resp. http_request lib net m u h d t w = (Inr resp, w') \<and>
           status resp = st \<and> body resp = b \<and>
           dom (headers resp) = str_lower lib ` fst ` set hs \<and>
           (\<forall>k v. headers resp k = Some v \<longrightarrow> (\<exists>k0. (k0, v) \<in> set hs \<and> str_lower lib k0 = k))"
  using assms by (auto simp: http_request_def dom_lower_keys dest: lower_keys_val)

theorem http_request_any_status_witness:
  "\<exists>resp. http_request test_lib (test_server ''http://127.0.0.1:8080'' routes_chat) ''GET''
            ''http://127.0.0.1:8080/nowhere'' (auth_headers ''sk-test'') None 0 () = (Inr resp, ()) \<and>
          status resp = 404 \<and> body resp = ''{\"error\":\"not_found\"}'' \<and>
          dom (headers resp) = {''server'', ''date'', ''content-type''}"
proof -
  have n: "test_server ''http://127.0.0.1:8080'' routes_chat ()
             \<lparr>req_method = ''GET'', req_url = ''http://127.0.0.1:8080/nowhere'',
              req_headers = auth_headers ''sk-test'', req_data = None, req_timeout = 0\<rparr>
           = (HTTPError 404 json_ct ''{\"error\":\"not_found\"}'', ())"
    by (simp add: test_server_def routes_chat_def auth_headers_def)
  have l: "str_lower test_lib ` fst ` set json_ct = {''server'', ''date'', ''content-type''}"
    by (simp add: test_lib_def json_ct_def ascii_lower_def)
  from http_request_any_status[where net = "test_server ''http://127.0.0.1:8080'' routes_chat"
      and w = "()" and w' = "()" and lib = test_lib and st = 404 and hs = json_ct
      and b = "''{\"error\":\"not_found\"}''", OF n] l
  show ?thesis by auto
qed

section \<open>Rendering\<close>

text \<open>
  As stated, claim C8 fails: the inputs are written into the text unescaped, so a title
  that holds a line break followed by the provider prefix adds a context-provider line.
  The output below has eight.
\<close>

theorem render_yaml_counterexample:
  "provider_lines
     (render_yaml \<lparr>api_base = ''http://127.0.0.1:8080/api'', model = ''llama3:latest'',
                   use_legacy_completions_endpoint = False\<rparr>
        ''sk-test'' (''Local'' @ [CHR 0x0A] @ ''  - provider: web'') ''LLama3'')
   = [''  - provider: web'',
      ''  - provider: code'',
      ''  - provider: docs'',
      ''  - provider: diff'',
      ''  - provider: terminal'',
      ''  - provider: problems'',
      ''  - provider: folder'',
      ''  - provider: codebase'']"
  by (simp add: provider_lines_def render_lines_split render_lines_def DEFAULT_CONTEXT_def
      yaml_quote_def replace_char_def)

text \<open>
  Claim C8, amended. The rendered text is a function of the four inputs alone. For every
  input its lines end with the seven context-provider lines, in the order code, docs,
  diff, terminal, problems, folder, codebase, followed by one empty line: the text ends
  with a single trailing newline. When none of the title, the display name, the model,
  the base and the key holds a line break, the text has the twenty-two lines below and
  its context-provider lines are exactly these seven.
\<close>

theorem render_yaml_lines:
  "split_lines (render_yaml result api_key title model_name) =
     concat (map split_lines
       [''name: '' @ title,
        ''version: 1.0.0'',
        ''schema: v1'',
        ''models:'',
        ''  - name: '' @ model_name,
        ''    provider: openai'',
        ''    model: '' @ model result,
        ''    env:'',
        ''      useLegacyCompletionsEndpoint: ''
          @ (if use_legacy_completions_endpoint result then ''true'' else ''false''),
        ''    apiBase: '' @ api_base result,
        ''    apiKey: '' @ yaml_quote api_key,
        ''    roles:'',
        ''      - chat'',
        ''      - edit'',
        ''context:''])
     @ [''  - provider: code'',
        ''  - provider: docs'',
        ''  - provider: diff'',
        ''  - provider: terminal'',
        ''  - provider: problems'',
        ''  - provider: folder'',
        ''  - provider: codebase'',
        []] \<and>
   (CHR 0x0A \<notin> set title \<union> set model_name \<union> set (model result) \<union> set (api_base result)
                 \<union> set api_key \<longrightarrow>
      split_lines (render_yaml result api_key title model_name) =
        [''name: '' @ title,
         ''version: 1.0.0'',
         ''schema: v1'',
         ''models:'',
         ''  - name: '' @ model_name,
         ''    provider: openai'',
         ''    model: '' @ model result,
         ''    env:'',
         ''      useLegacyCompletionsEndpoint: ''
           @ (if use_legacy_completions_endpoint result then ''true'' else ''false''),
         ''    apiBase: '' @ api_base result,
         ''    apiKey: '' @ yaml_quote api_key,
         ''    roles:'',
         ''      - chat'',
         ''      - edit'',
         ''context:'',
         ''  - provider: code'',
         ''  - provider: docs'',
         ''  - provider: diff'',
         ''  - provider: terminal'',
         ''  - provider: problems'',
         ''  - provider: folder'',
         ''  - provider: codebase'',
         []] \<and>
      provider_lines (render_yaml result api_key title model_name) =
        [''  - provider: code'',
         ''  - provider: docs'',
         ''  - provider: diff'',
         ''  - provider: terminal'',
         ''  - provider: problems'',
         ''  - provider: folder'',
         ''  - provider: codebase''])"
proof (intro conjI impI)
  show "split_lines (render_yaml result api_key title model_name) =
     concat (map split_lines
       [''name: '' @ title,
        ''version: 1.0.0'',
        ''schema: v1'',
        ''models:'',
        ''  - name: '' @ model_name,
        ''    provider: openai'',
        ''    model: '' @ model result,
        ''    env:'',
        ''      useLegacyCompletionsEndpoint: ''
          @ (if use_legacy_completions_endpoint result then ''true'' else ''false''),
        ''    apiBase: '' @ api_base result,
        ''    apiKey: '' @ yaml_quote api_key,
        ''    roles:'',
        ''      - chat'',
        ''      - edit'',
        ''context:''])
     @ [''  - provider: code'',
        ''  - provider: docs'',
        ''  - provider: diff'',
        ''  - provider: terminal'',
        ''  - provider: problems'',
        ''  - provider: folder'',
        ''  - provider: codebase'',
        []]"
    by (simp add: render_lines_split render_lines_def DEFAULT_CONTEXT_def split_lines_single)
next
  assume "CHR 0x0A \<notin> set title \<union> set model_name \<union> set (model result) \<union> set (api_base result)
                 \<union> set api_key"
  then have free: "CHR 0x0A \<notin> set title" "CHR 0x0A \<notin> set model_name"
    "CHR 0x0A \<notin> set (model result)" "CHR 0x0A \<notin> set (api_base result)"
    "CHR 0x0A \<notin> set (yaml_quote api_key)"
    using newline_yaml_quote[of api_key] by auto
  then show lines: "split_lines (render_yaml result api_key title model_name) =
        [''name: '' @ title,
         ''version: 1.0.0'',
         ''schema: v1'',
         ''models:'',
         ''  - name: '' @ model_name,
         ''    provider: openai'',
         ''    model: '' @ model result,
         ''    env:'',
         ''      useLegacyCompletionsEndpoint: ''
           @ (if use_legacy_completions_endpoint result then ''true'' else ''false''),
         ''    apiBase: '' @ api_base result,
         ''    apiKey: '' @ yaml_quote api_key,
         ''    roles:'',
         ''      - chat'',
         ''      - edit'',
         ''context:'',
         ''  - provider: code'',
         ''  - provider: docs'',
         ''  - provider: diff'',
         ''  - provider: terminal'',
         ''  - provider: problems'',
         ''  - provider: folder'',
         ''  - provider: codebase'',
         []]"
    by (simp add: render_lines_split render_lines_def DEFAULT_CONTEXT_def split_lines_single)
  show "provider_lines (render_yaml result api_key title model_name) =
        [''  - provider: code'',
         ''  - provider: docs'',
         ''  - provider: diff'',
         ''  - provider: terminal'',
         ''  - provider: problems'',
         ''  - provider: folder'',
         ''  - provider: codebase'']"
    unfolding provider_lines_def lines by simp
qed

theorem render_yaml_lines_witness:
  "CHR 0x0A \<notin> set ''Local Assistant'' \<union> set ''LLama3'' \<union> set ''llama3:latest''
                 \<union> set ''http://127.0.0.1:8080/api'' \<union> set ''sk-test'' \<and>
   provider_lines
     (render_yaml \<lparr>api_base = ''http://127.0.0.1:8080/api'', model = ''llama3:latest'',
                   use_legacy_completions_endpoint = False\<rparr>
        ''sk-test'' ''Local Assistant'' ''LLama3'')
   = [''  - provider: code'',
      ''  - provider: docs'',
      ''  - provider: diff'',
      ''  - provider: terminal'',
      ''  - provider: problems'',
      ''  - provider: folder'',
      ''  - provider: codebase'']"
proof -
  have free: "CHR 0x0A \<notin> set ''Local Assistant'' \<union> set ''LLama3'' \<union> set ''llama3:latest''
                 \<union> set ''http://127.0.0.1:8080/api'' \<union> set ''sk-test''"
    by simp
  from render_yaml_lines[of "\<lparr>api_base = ''http://127.0.0.1:8080/api'', model = ''llama3:latest'',
                   use_legacy_completions_endpoint = False\<rparr>" "''sk-test'' " "''Local Assistant''"
      "''LLama3''", THEN conjunct2, rule_format] free
  show ?thesis by simp
qed

section \<open>Invariants of discovery\<close>

text \<open>
  Claim C9. When discovery returns a result, its base is one of the candidate bases of
  the host and port, and its model is a member of the id list extracted from a
  status-200 response to that base's \<open>/models\<close> request: the one model selection picks
  from that list with the given hint.
\<close>

theorem discover_result_provenance:
  assumes "best_effort_probe lib net host port api_key hint t w = (Inr (Some res, ns), w')"
  shows "api_base res \<in> set (candidate_api_bases host port) \<and>
     (\<exists>w1 w2 resp.
        http_request lib net ''GET'' (join (api_base res) ''/models'') (auth_headers api_key) None t w1
          = (Inr resp, w2) \<and>
        status resp = 200 \<and>
        (\<exists>payload. try_json lib resp = Inr payload \<and>
           model res \<in> set (extract_model_ids lib payload) \<and>
           pick_model lib (extract_model_ids lib payload) hint = Some (model res)))"
  using assms unfolding best_effort_probe_def by (rule probe_loop_result)

theorem discover_result_provenance_witness:
  "best_effort_probe test_lib (test_server ''http://127.0.0.1:8080'' routes_chat) ''127.0.0.1'' 8080
     ''sk-test'' ''llama3'' 0 ()
     = (Inr (Some \<lparr>api_base = ''http://127.0.0.1:8080/api'', model = ''llama3:latest'',
                  use_legacy_completions_endpoint = False\<rparr>,
             [''http://127.0.0.1:8080/api/models -> 200'',
              ''http://127.0.0.1:8080/api/chat/completions -> 200'']), ()) \<and>
   ''http://127.0.0.1:8080/api'' \<in> set (candidate_api_bases ''127.0.0.1'' 8080) \<and>
   (\<exists>w1 w2 resp.
      http_request test_lib (test_server ''http://127.0.0.1:8080'' routes_chat) ''GET''
        (join ''http://127.0.0.1:8080/api'' ''/models'') (auth_headers ''sk-test'') None 0 w1
        = (Inr resp, w2) \<and>
      status resp = 200 \<and>
      (\<exists>payload. try_json test_lib resp = Inr payload \<and>
         ''llama3:latest'' \<in> set (extract_model_ids test_lib payload) \<and>
         pick_model test_lib (extract_model_ids test_lib payload) ''llama3''
           = Some ''llama3:latest''))"
  using discover_result_provenance[OF run_chat] run_chat by simp

text \<open>
  Claim C10. Discovery never issues a chat or legacy completion probe for the empty model
  identifier: every POST of a run carries the payload of a non-empty model. When
  selection yields the empty string, the loop moves on to the next base with the one
  note of the \<open>/models\<close> call, exactly as it does when no model is selected.
\<close>

theorem no_probe_with_empty_model:
  "(best_effort_probe lib (logged net) host port api_key hint t (w, []) = (r, (w', tr)) \<longrightarrow>
      (\<forall>e\<in>set tr. req_method (fst e) = ''POST'' \<longrightarrow>
         (\<exists>m. m \<noteq> [] \<and> (req_data (fst e) = Some (chat_payload lib m) \<or>
                           req_data (fst e) = Some (legacy_payload lib m))))) \<and>
   (probe_models lib net base api_key t w = (Inr (Some ids, n1), w1) \<and>
    pick_model lib ids hint = Some [] \<longrightarrow>
      probe_loop lib net api_key hint t (base # rest) ns w
        = probe_loop lib net api_key hint t rest (ns @ [n1]) w1) \<and>
   (probe_models lib net base api_key t w = (Inr (ids0, n1), w1) \<and>
    (ids0 = None \<or> (\<exists>xs. ids0 = Some xs \<and> pick_model lib xs hint = None)) \<longrightarrow>
      probe_loop lib net api_key hint t (base # rest) ns w
        = probe_loop lib net api_key hint t rest (ns @ [n1]) w1)"
proof (intro conjI impI)
  assume "best_effort_probe lib (logged net) host port api_key hint t (w, []) = (r, (w', tr))"
  then have "probe_loop lib (logged net) api_key hint t (candidate_api_bases host port) [] (w, [])
                     = (r, (w', tr))"
    by (simp add: best_effort_probe_def)
  from probe_loop_trace[OF this] have "trace_ok lib (r = Inl ConnectionError) tr" by simp
  then show "\<forall>e\<in>set tr. req_method (fst e) = ''POST'' \<longrightarrow>
         (\<exists>m. m \<noteq> [] \<and> (req_data (fst e) = Some (chat_payload lib m) \<or>
                           req_data (fst e) = Some (legacy_payload lib m)))"
    unfolding trace_ok_def by blast
next
  assume "probe_models lib net base api_key t w = (Inr (Some ids, n1), w1) \<and>
    pick_model lib ids hint = Some []"
  then show "probe_loop lib net api_key hint t (base # rest) ns w
        = probe_loop lib net api_key hint t rest (ns @ [n1]) w1"
    using probe_loop_skip[of lib net base api_key t w "Some ids" n1 w1 hint rest ns] by auto
next
  assume "probe_models lib net base api_key t w = (Inr (ids0, n1), w1) \<and>
    (ids0 = None \<or> (\<exists>xs. ids0 = Some xs \<and> pick_model lib xs hint = None))"
  then show "probe_loop lib net api_key hint t (base # rest) ns w
        = probe_loop lib net api_key hint t rest (ns @ [n1]) w1"
    using probe_loop_skip[of lib net base api_key t w ids0 n1 w1 hint rest ns] by auto
qed

theorem no_probe_with_empty_model_witness:
  "(\<exists>m. m \<noteq> [] \<and>
      (Some (chat_payload test_lib ''llama3:latest'') = Some (chat_payload test_lib m) \<or>
       Some (chat_payload test_lib ''llama3:latest'') = Some (legacy_payload test_lib m))) \<and>
   pick_model test_lib [[]] ''llama3'' = Some [] \<and>
   probe_loop test_lib (test_server ''http://127.0.0.1:8080'' routes_blank) ''sk-test'' ''llama3'' 0
     [''http://127.0.0.1:8080/api''] [] ()
     = (Inr (None, [''http://127.0.0.1:8080/api/models -> 200'']), ()) \<and>
   probe_loop test_lib (test_server ''http://127.0.0.1:8080'' []) ''sk-test'' ''llama3'' 0
     [''http://127.0.0.1:8080/api''] [] ()
     = (Inr (None, [''http://127.0.0.1:8080/api/models -> 404'']), ())"
proof -
  let ?e = "(\<lparr>req_method = ''POST'', req_url = ''http://127.0.0.1:8080/api/chat/completions'',
            req_headers = auth_headers ''sk-test'',
            req_data = Some (chat_payload test_lib ''llama3:latest''), req_timeout = 0\<rparr>,
           HTTPError 404 json_ct ''{\"error\": \"nope\"}'')"
  note T = no_probe_with_empty_model
  have "\<exists>m. m \<noteq> [] \<and>
      (req_data (fst ?e) = Some (chat_payload test_lib m) \<or>
       req_data (fst ?e) = Some (legacy_payload test_lib m))"
    using T[THEN conjunct1, rule_format, OF run_legacy_logged, of ?e] by simp
  then have a: "\<exists>m. m \<noteq> [] \<and>
      (Some (chat_payload test_lib ''llama3:latest'') = Some (chat_payload test_lib m) \<or>
       Some (chat_payload test_lib ''llama3:latest'') = Some (legacy_payload test_lib m))"
    by simp
  have b: "probe_loop test_lib (test_server ''http://127.0.0.1:8080'' routes_blank) ''sk-test''
             ''llama3'' 0 [''http://127.0.0.1:8080/api''] [] ()
           = (Inr (None, [''http://127.0.0.1:8080/api/models -> 200'']), ())"
    using T[THEN conjunct2, THEN conjunct1, rule_format, OF conjI[OF models_blank pick_blank],
        of "[]" "[]"] by simp
  have c: "probe_loop test_lib (test_server ''http://127.0.0.1:8080'' []) ''sk-test''
             ''llama3'' 0 [''http://127.0.0.1:8080/api''] [] ()
           = (Inr (None, [''http://127.0.0.1:8080/api/models -> 404'']), ())"
    using T[THEN conjunct2, THEN conjunct2, rule_format, OF conjI[OF models_none disjI1[OF refl]],
        of "''llama3''" "[]" "[]"] by simp
  from a b c pick_blank show ?thesis by blast
qed

end
